theory Spec2Isabelle
  imports Main "HOL-Library.AList"
begin

section \<open>JavaScript values\<close>

text \<open>
  The values the handlers and the token cache pass around are what \<^verbatim>\<open>JSON.parse\<close> and
  the JavaScript literals of the source produce. Numbers are the integer-valued ones
  (status codes, flags); no path modelled here does arithmetic on a fractional number.
  An object is its list of properties in insertion order, read with \<open>map_of\<close>.
\<close>

datatype jsval =
    JUndefined
  | JNull
  | JBool bool
  | JNum int
  | JStr string
  | JArr "jsval list"
  | JObj "(string \<times> jsval) list"

text \<open>JavaScript's ToBoolean, as \<^verbatim>\<open>if (x)\<close>, \<^verbatim>\<open>!x\<close>, \<^verbatim>\<open>x && y\<close> and \<^verbatim>\<open>x || y\<close> use it.\<close>

fun truthy :: "jsval \<Rightarrow> bool" where
  "truthy JUndefined = False"
| "truthy JNull = False"
| "truthy (JBool b) = b"
| "truthy (JNum n) = (n \<noteq> 0)"
| "truthy (JStr s) = (s \<noteq> [])"
| "truthy (JArr xs) = True"
| "truthy (JObj kvs) = True"

section \<open>The token cache (src/lib/tokenCache.js, first implementation)\<close>

text \<open>
  The module-level object \<^verbatim>\<open>cache\<close>. The two expiry fields hold \<^verbatim>\<open>null\<close> (\<open>None\<close>) or
  a number of milliseconds since the epoch, as \<^verbatim>\<open>Date.now()\<close> returns it: a natural number.
  Every function that reads the clock takes the reading as its argument \<open>now\<close>; a function
  that mutates the cache returns the new cache.
\<close>

record cache =
  accessToken :: jsval
  accessTokenExpiry :: "nat option"
  authToken :: jsval
  sek :: jsval
  userName :: jsval
  authTokenExpiry :: "nat option"

definition initial_cache :: cache where
  "initial_cache =
     \<lparr>accessToken = JNull, accessTokenExpiry = None, authToken = JNull,
      sek = JNull, userName = JNull, authTokenExpiry = None\<rparr>"

definition TOKEN_VALIDITY_MS :: nat where
  "TOKEN_VALIDITY_MS = 360 * 60 * 1000"

definition FORCE_REFRESH_WINDOW_MS :: nat where
  "FORCE_REFRESH_WINDOW_MS = 10 * 60 * 1000"

text \<open>\<^verbatim>\<open>expiry > Date.now()\<close>: a \<^verbatim>\<open>null\<close> expiry is compared as the number 0.\<close>

definition expiry_gt :: "nat option \<Rightarrow> nat \<Rightarrow> bool" where
  "expiry_gt e now = (case e of None \<Rightarrow> 0 > now | Some x \<Rightarrow> x > now)"

text \<open>ToBoolean of an expiry field: \<^verbatim>\<open>null\<close> and 0 are falsy.\<close>

definition expiry_truthy :: "nat option \<Rightarrow> bool" where
  "expiry_truthy e = (case e of None \<Rightarrow> False | Some x \<Rightarrow> x \<noteq> 0)"

definition getAccessToken :: "cache \<Rightarrow> nat \<Rightarrow> jsval" where
  "getAccessToken c now =
     (if truthy (accessToken c) \<and> expiry_gt (accessTokenExpiry c) now
      then accessToken c
      else JNull)"

definition setAccessToken :: "jsval \<Rightarrow> nat \<Rightarrow> cache \<Rightarrow> cache" where
  "setAccessToken token now c =
     c\<lparr>accessToken := token, accessTokenExpiry := Some (now + TOKEN_VALIDITY_MS)\<rparr>"

definition shouldForceRefresh :: "cache \<Rightarrow> nat \<Rightarrow> bool" where
  "shouldForceRefresh c now =
     (if \<not> expiry_truthy (accessTokenExpiry c) then False
      else
        (let timeRemaining = int (the (accessTokenExpiry c)) - int now
         in timeRemaining > 0 \<and> timeRemaining \<le> int FORCE_REFRESH_WINDOW_MS))"

definition getAuthData :: "cache \<Rightarrow> nat \<Rightarrow> jsval" where
  "getAuthData c now =
     (if truthy (authToken c) \<and> expiry_truthy (authTokenExpiry c)
         \<and> expiry_gt (authTokenExpiry c) now
      then JObj [(''authToken'', authToken c), (''sek'', sek c), (''userName'', userName c)]
      else JNull)"

definition setAuthData :: "jsval \<Rightarrow> jsval \<Rightarrow> jsval \<Rightarrow> nat \<Rightarrow> cache \<Rightarrow> cache" where
  "setAuthData a s u now c =
     c\<lparr>authToken := a, sek := s, userName := u,
       authTokenExpiry := Some (now + TOKEN_VALIDITY_MS)\<rparr>"

definition clearTokenCache :: "cache \<Rightarrow> cache" where
  "clearTokenCache c =
     c\<lparr>accessToken := JNull, accessTokenExpiry := None, authToken := JNull,
       sek := JNull, userName := JNull, authTokenExpiry := None\<rparr>"

subsection \<open>Histories of cache operations\<close>

text \<open>
  The cache starts empty when the module is loaded and changes only through its three
  mutators. A history is the list of the mutator calls made so far, each with the clock
  reading at the call, oldest first.
\<close>

datatype cache_op =
    SetAccessToken jsval
  | SetAuthData jsval jsval jsval
  | ClearTokenCache

fun apply_op :: "cache \<Rightarrow> nat \<times> cache_op \<Rightarrow> cache" where
  "apply_op c (now, SetAccessToken token) = setAccessToken token now c"
| "apply_op c (now, SetAuthData a s u) = setAuthData a s u now c"
| "apply_op c (now, ClearTokenCache) = clearTokenCache c"

definition run_ops :: "(nat \<times> cache_op) list \<Rightarrow> cache" where
  "run_ops ops = foldl apply_op initial_cache ops"

text \<open>
  What a history says about the access token, in the words of the specification: the token
  ``was set'' at time \<open>t\<close> when the latest \<^verbatim>\<open>setAccessToken\<close> happened at \<open>t\<close> and nothing
  cleared the cache afterwards.
\<close>

fun note_access_set :: "(nat \<times> jsval) option \<Rightarrow> nat \<times> cache_op \<Rightarrow> (nat \<times> jsval) option" where
  "note_access_set acc (t, SetAccessToken token) = Some (t, token)"
| "note_access_set acc (t, SetAuthData a s u) = acc"
| "note_access_set acc (t, ClearTokenCache) = None"

definition last_access_set :: "(nat \<times> cache_op) list \<Rightarrow> (nat \<times> jsval) option" where
  "last_access_set ops = foldl note_access_set None ops"

text \<open>Milliseconds from the moment \<open>t\<close> to the query time \<open>now\<close> (negative if \<open>now\<close> is earlier).\<close>

definition elapsed :: "nat \<Rightarrow> nat \<Rightarrow> int" where
  "elapsed t now = int now - int t"

text \<open>The claim's condition: a token was set strictly less than the validity window ago.\<close>

definition set_within_validity :: "(nat \<times> cache_op) list \<Rightarrow> nat \<Rightarrow> bool" where
  "set_within_validity ops now =
     (case last_access_set ops of
        None \<Rightarrow> False
      | Some (t, token) \<Rightarrow> elapsed t now < int TOKEN_VALIDITY_MS)"

text \<open>The same condition, for a token that JavaScript counts as true.\<close>

definition truthy_set_within_validity :: "(nat \<times> cache_op) list \<Rightarrow> nat \<Rightarrow> bool" where
  "truthy_set_within_validity ops now =
     (case last_access_set ops of
        None \<Rightarrow> False
      | Some (t, token) \<Rightarrow> truthy token \<and> elapsed t now < int TOKEN_VALIDITY_MS)"

section \<open>The token cache, second implementation (src/lib/tokenCache.js, second file)\<close>

text \<open>
  The near-duplicate module keeps its state in \<^verbatim>\<open>tokenCache\<close>, with the expiry fields
  named \<^verbatim>\<open>expiresAt\<close> and \<^verbatim>\<open>authExpiresAt\<close>, and its own constants.
\<close>

record tokenCache =
  tc_accessToken :: jsval
  expiresAt :: "nat option"
  tc_authToken :: jsval
  tc_sek :: jsval
  tc_userName :: jsval
  authExpiresAt :: "nat option"

definition TOKEN_VALIDITY_MS_v2 :: nat where
  "TOKEN_VALIDITY_MS_v2 = 60 * 60 * 1000"

definition FORCE_REFRESH_THRESHOLD_MS :: nat where
  "FORCE_REFRESH_THRESHOLD_MS = 10 * 60 * 1000"

definition getAccessToken_v2 :: "tokenCache \<Rightarrow> nat \<Rightarrow> jsval" where
  "getAccessToken_v2 c now =
     (if truthy (tc_accessToken c) \<and> expiry_gt (expiresAt c) now
      then tc_accessToken c
      else JNull)"

definition setAccessToken_v2 :: "jsval \<Rightarrow> nat \<Rightarrow> tokenCache \<Rightarrow> tokenCache" where
  "setAccessToken_v2 token now c =
     c\<lparr>tc_accessToken := token, expiresAt := Some (now + TOKEN_VALIDITY_MS_v2)\<rparr>"

definition shouldForceRefresh_v2 :: "tokenCache \<Rightarrow> nat \<Rightarrow> bool" where
  "shouldForceRefresh_v2 c now =
     (if \<not> expiry_truthy (expiresAt c) then False
      else
        (let timeUntilExpiry = int (the (expiresAt c)) - int now
         in timeUntilExpiry > 0 \<and> timeUntilExpiry \<le> int FORCE_REFRESH_THRESHOLD_MS))"

definition getAuthData_v2 :: "tokenCache \<Rightarrow> nat \<Rightarrow> jsval" where
  "getAuthData_v2 c now =
     (if truthy (tc_authToken c) \<and> expiry_truthy (authExpiresAt c)
         \<and> expiry_gt (authExpiresAt c) now
      then JObj [(''authToken'', tc_authToken c), (''sek'', tc_sek c),
                 (''userName'', tc_userName c)]
      else JNull)"

definition setAuthData_v2 :: "jsval \<Rightarrow> jsval \<Rightarrow> jsval \<Rightarrow> nat \<Rightarrow> tokenCache \<Rightarrow> tokenCache" where
  "setAuthData_v2 a s u now c =
     c\<lparr>tc_authToken := a, tc_sek := s, tc_userName := u,
       authExpiresAt := Some (now + TOKEN_VALIDITY_MS_v2)\<rparr>"

definition clearCache :: "tokenCache \<Rightarrow> tokenCache" where
  "clearCache c =
     c\<lparr>tc_accessToken := JNull, expiresAt := None, tc_authToken := JNull,
       tc_sek := JNull, tc_userName := JNull, authExpiresAt := None\<rparr>"

section \<open>What the handlers use of JavaScript\<close>

text \<open>
  Reading a property of \<^verbatim>\<open>null\<close> or \<^verbatim>\<open>undefined\<close> throws a TypeError; the handlers'
  models test \<open>nullish\<close> at each such read. On every other value the read returns the
  property, or \<^verbatim>\<open>undefined\<close>: none of the names read here (\<^verbatim>\<open>status\<close>, \<^verbatim>\<open>Irn\<close>,
  \<^verbatim>\<open>ErrorMessage\<close>, ...) is a property of a string, number, boolean or array.
\<close>

definition nullish :: "jsval \<Rightarrow> bool" where
  "nullish v = (v = JUndefined \<or> v = JNull)"

definition js_get :: "jsval \<Rightarrow> string \<Rightarrow> jsval" where
  "js_get v k =
     (case v of
        JObj kvs \<Rightarrow> (case map_of kvs k of None \<Rightarrow> JUndefined | Some x \<Rightarrow> x)
      | _ \<Rightarrow> JUndefined)"

text \<open>\<^verbatim>\<open>a || b\<close>.\<close>

definition js_or :: "jsval \<Rightarrow> jsval \<Rightarrow> jsval" where
  "js_or a b = (if truthy a then a else b)"

fun isArray :: "jsval \<Rightarrow> bool" where
  "isArray (JArr xs) = True"
| "isArray v = False"

fun elems :: "jsval \<Rightarrow> jsval list" where
  "elems (JArr xs) = xs"
| "elems v = []"

fun typeof_string :: "jsval \<Rightarrow> bool" where
  "typeof_string (JStr s) = True"
| "typeof_string v = False"

text \<open>\<^verbatim>\<open>s.includes(sub)\<close> on strings.\<close>

fun str_includes :: "string \<Rightarrow> string \<Rightarrow> bool" where
  "str_includes [] sub = (sub = [])"
| "str_includes (c # cs) sub = (take (length sub) (c # cs) = sub \<or> str_includes cs sub)"

text \<open>
  The library functions whose results the handlers only pass on are parameters of the
  model: the conversion to a string that template literals and \<^verbatim>\<open>join\<close> apply to a value
  that is not a string, \<^verbatim>\<open>JSON.stringify\<close>, \<^verbatim>\<open>Number\<close>, \<^verbatim>\<open>new Date\<close>, and the text of the
  engine's TypeError.
\<close>

record host =
  js_String :: "jsval \<Rightarrow> string"
  JSON_stringify :: "jsval \<Rightarrow> string"
  js_Number :: "jsval \<Rightarrow> jsval"
  js_Date :: "jsval \<Rightarrow> jsval"
  type_error_message :: string

text \<open>
  What a \<^verbatim>\<open>try\<close> block can catch: a TypeError raised by the handler's own code, or the
  rejection of an awaited call (\<^verbatim>\<open>fetch\<close>, \<^verbatim>\<open>json()\<close>, \<^verbatim>\<open>text()\<close>, the document builder)
  with its message.
\<close>

datatype js_exn = TypeError | Rejected string

definition exn_message :: "host \<Rightarrow> js_exn \<Rightarrow> string" where
  "exn_message h e = (case e of TypeError \<Rightarrow> type_error_message h | Rejected m \<Rightarrow> m)"

text \<open>\<^verbatim>\<open>Array.prototype.join\<close>: \<^verbatim>\<open>null\<close> and \<^verbatim>\<open>undefined\<close> elements give the empty string.\<close>

definition join_elem :: "host \<Rightarrow> jsval \<Rightarrow> string" where
  "join_elem h v =
     (case v of JStr s \<Rightarrow> s | JUndefined \<Rightarrow> [] | JNull \<Rightarrow> [] | _ \<Rightarrow> js_String h v)"

fun join_strings :: "string \<Rightarrow> string list \<Rightarrow> string" where
  "join_strings sep [] = []"
| "join_strings sep [x] = x"
| "join_strings sep (x # y # ys) = x @ sep @ join_strings sep (y # ys)"

definition join :: "host \<Rightarrow> string \<Rightarrow> jsval list \<Rightarrow> string" where
  "join h sep vs = join_strings sep (map (join_elem h) vs)"

text \<open>
  \<^verbatim>\<open>[...new Set(xs)]\<close>: the set keeps the first of the values it counts as the same
  (SameValueZero) in insertion order. Two primitives are the same when they are equal; arrays
  and objects are compared by reference, and those that \<^verbatim>\<open>JSON.parse\<close> built for different
  places of a response are different references.
\<close>

fun primitive :: "jsval \<Rightarrow> bool" where
  "primitive (JArr xs) = False"
| "primitive (JObj kvs) = False"
| "primitive v = True"

definition same_value_zero :: "jsval \<Rightarrow> jsval \<Rightarrow> bool" where
  "same_value_zero a b = (primitive a \<and> a = b)"

definition set_add :: "jsval list \<Rightarrow> jsval \<Rightarrow> jsval list" where
  "set_add seen x = (if list_ex (\<lambda>y. same_value_zero y x) seen then seen else seen @ [x])"

definition new_Set :: "jsval list \<Rightarrow> jsval list" where
  "new_Set xs = foldl set_add [] xs"

text \<open>\<^verbatim>\<open>xs.map(f)\<close> where \<^verbatim>\<open>f\<close> may throw: the first exception ends the loop.\<close>

fun map_exn :: "('a \<Rightarrow> js_exn + 'b) \<Rightarrow> 'a list \<Rightarrow> js_exn + 'b list" where
  "map_exn f [] = Inr []"
| "map_exn f (x # xs) =
     (case f x of
        Inl e \<Rightarrow> Inl e
      | Inr y \<Rightarrow> (case map_exn f xs of Inl e \<Rightarrow> Inl e | Inr ys \<Rightarrow> Inr (y # ys)))"

section \<open>The world of a handler\<close>

text \<open>
  A \<^verbatim>\<open>fetch\<close> response, as far as the handlers read it. \<open>resp_contentType\<close> is
  \<^verbatim>\<open>headers.get("content-type")\<close> (\<open>None\<close> for \<^verbatim>\<open>null\<close>); \<open>resp_text\<close> and \<open>resp_json\<close> are
  what awaiting \<^verbatim>\<open>text()\<close> and \<^verbatim>\<open>json()\<close> gives.
\<close>

record fetch_response =
  resp_ok :: bool
  resp_status :: nat
  resp_statusText :: string
  resp_contentType :: "string option"
  resp_text :: "js_exn + string"
  resp_json :: "js_exn + jsval"

text \<open>The \<^verbatim>\<open>{ data, error }\<close> a data-store call resolves to.\<close>

record db_result =
  db_data :: jsval
  db_error :: jsval

text \<open>What the handler sends back: \<^verbatim>\<open>res.status(n).json(body)\<close>.\<close>

record reply =
  reply_status :: nat
  reply_body :: jsval

text \<open>
  The remote calls a handler issues, with what they present: the bearer access token, the
  force-refresh flag, the session bundle, the payload.
\<close>

datatype remote_call =
    Authenticate
  | EnhancedAuth jsval bool
  | GenerateIrn jsval jsval jsval
  | CancelIrn jsval jsval jsval

text \<open>The data-store writes a handler issues.\<close>

datatype db_write =
    InsertInvoice "(string \<times> jsval) list"
  | UpdateOrder jsval jsval
  | InsertCanceledInvoice jsval jsval jsval jsval
  | UpdateInvoiceCancelled jsval

text \<open>
  The state a handler threads: the module's cache and the log of its effects. The handlers
  import the five functions of the token cache; the model runs them on the first
  implementation. Neither handler depends on the length of the validity window.
\<close>

record run_state =
  st_cache :: cache
  st_calls :: "remote_call list"
  st_writes :: "db_write list"

text \<open>
  A step of a handler goes on with a value, returns a response (\<^verbatim>\<open>return res...\<close>) or
  throws into the handler's \<^verbatim>\<open>catch\<close>.
\<close>

datatype 'a step = Continue 'a | Return reply | Throw js_exn

datatype finish = Replied reply | Thrown js_exn

definition issue :: "remote_call \<Rightarrow> run_state \<Rightarrow> run_state" where
  "issue c st = st\<lparr>st_calls := st_calls st @ [c]\<rparr>"

definition db_issue :: "db_write \<Rightarrow> run_state \<Rightarrow> run_state" where
  "db_issue x st = st\<lparr>st_writes := st_writes st @ [x]\<rparr>"

text \<open>
  The message of a response that is not \<^verbatim>\<open>ok\<close>: the fields \<open>keys\<close> of a JSON body, tried
  in order with \<^verbatim>\<open>||\<close>, or the text of the body, else \<^verbatim>\<open>HTTP <status>: <statusText>\<close>.
\<close>

definition http_error_message :: "host \<Rightarrow> fetch_response \<Rightarrow> string list \<Rightarrow> js_exn + jsval" where
  "http_error_message h r keys =
     (let errorMessage =
            JStr (''HTTP '' @ js_String h (JNum (int (resp_status r))) @ '': '' @ resp_statusText r)
      in if (case resp_contentType r of
               None \<Rightarrow> False
             | Some contentType \<Rightarrow> contentType \<noteq> [] \<and> str_includes contentType ''application/json'')
         then (case resp_json r of
                 Inl e \<Rightarrow> Inl e
               | Inr errorData \<Rightarrow>
                   if nullish errorData then Inl TypeError
                   else Inr (foldr (\<lambda>k rest. js_or (js_get errorData k) rest) keys errorMessage))
         else (case resp_text r of
                 Inl e \<Rightarrow> Inl e
               | Inr textResponse \<Rightarrow> Inr (js_or (JStr textResponse) errorMessage)))"

definition api_error_reply :: "string \<Rightarrow> jsval \<Rightarrow> fetch_response \<Rightarrow> string \<Rightarrow> reply" where
  "api_error_reply title errorMessage r timestamp =
     \<lparr>reply_status = 400,
      reply_body = JObj
        [(''error'', JStr title),
         (''details'', errorMessage),
         (''apiResponse'', JObj
            [(''status'', JNum (int (resp_status r))),
             (''statusText'', JStr (resp_statusText r)),
             (''timestamp'', JStr timestamp)])]\<rparr>"

text \<open>Sequencing: a step that returned or threw ends the handler's \<^verbatim>\<open>try\<close> block.\<close>

definition and_then ::
  "'a step \<times> run_state \<Rightarrow> ('a \<Rightarrow> run_state \<Rightarrow> 'b step \<times> run_state) \<Rightarrow> 'b step \<times> run_state" where
  "and_then m f =
     (case m of
        (Continue x, st) \<Rightarrow> f x st
      | (Return r, st) \<Rightarrow> (Return r, st)
      | (Throw e, st) \<Rightarrow> (Throw e, st))"

text \<open>What one run of a handler leaves: its response, the cache, the calls and the writes.\<close>

record result =
  res_reply :: reply
  res_cache :: cache
  res_calls :: "remote_call list"
  res_writes :: "db_write list"

section \<open>The generate-IRN handler (src/routes/generateIrnRoute.js)\<close>

text \<open>
  Everything the handler reads from outside: the environment, the request body (the object
  the body parser built), what the data store and the three remote endpoints answer, the
  document \<^verbatim>\<open>generateInvoiceJSONB\<close> builds (or the exception it throws), and the clock at
  each call of the token cache. The look-ups of the delivery address and of the grade only
  feed the document builder and decide no branch; they are part of \<open>g_invoiceData\<close>.
\<close>

record gen_world =
  g_env :: "string \<Rightarrow> string option"
  g_body :: "(string \<times> jsval) list"
  g_rpc :: db_result
  g_customer :: db_result
  g_unit :: db_result
  g_invoiceData :: "js_exn + jsval"
  g_now_getAccessToken :: nat
  g_now_setAccessToken :: nat
  g_now_getAuthData :: nat
  g_now_shouldForceRefresh :: nat
  g_now_setAuthData :: nat
  g_authenticate :: "js_exn + fetch_response"
  g_enhanced :: "js_exn + fetch_response"
  g_generate :: "js_exn + fetch_response"
  g_insert :: db_result
  g_order :: db_result
  g_timestamp :: string

definition body_get :: "(string \<times> jsval) list \<Rightarrow> string \<Rightarrow> jsval" where
  "body_get b k = js_get (JObj b) k"

definition requiredEnvVars :: "string list" where
  "requiredEnvVars =
     [''EINVOICE_CLIENT_ID'', ''EINVOICE_CLIENT_SECRET'', ''EINVOICE_USERNAME'',
      ''EINVOICE_PASSWORD'', ''GSTIN'']"

definition missingEnvVars :: "gen_world \<Rightarrow> string list" where
  "missingEnvVars w =
     filter (\<lambda>envVar. case g_env w envVar of None \<Rightarrow> True | Some v \<Rightarrow> v = []) requiredEnvVars"

definition error_reply :: "nat \<Rightarrow> jsval \<Rightarrow> reply" where
  "error_reply n msg = \<lparr>reply_status = n, reply_body = JObj [(''error'', msg)]\<rparr>"

text \<open>
  Lines 26 to 183: the checks before the IRN steps. The step goes on with \<open>unitId\<close>,
  \<open>customerId\<close>, \<open>invoice_no\<close> and \<open>invoiceData\<close>. \<^verbatim>\<open>customer.gstin.substring(0, 2)\<close>
  throws unless the customer's GSTIN is a string.
\<close>

definition gen_preamble :: "host \<Rightarrow> gen_world \<Rightarrow> (jsval \<times> jsval \<times> jsval \<times> jsval) step" where
  "gen_preamble h w =
     (if missingEnvVars w \<noteq> [] then
        Return \<lparr>reply_status = 500,
                reply_body = JObj
                  [(''error'', JStr ''IRN Generation Failed - Configuration Error''),
                   (''details'', JStr (''Missing environment variables: ''
                                       @ join_strings '', '' (missingEnvVars w)))]\<rparr>
      else
        (let unitId = js_Number h (body_get (g_body w) ''unit_id'');
             customerId = js_Number h (body_get (g_body w) ''customer_id'')
         in if truthy (db_error (g_rpc w)) then
              Return (error_reply 400 (js_get (db_error (g_rpc w)) ''message''))
            else if truthy (db_error (g_customer w)) \<or> \<not> truthy (db_data (g_customer w)) then
              Return (error_reply 404 (JStr ''Customer not found''))
            else if truthy (db_error (g_unit w)) \<or> \<not> truthy (db_data (g_unit w)) then
              Return (error_reply 404 (JStr ''Unit not found''))
            else if \<not> typeof_string (js_get (db_data (g_customer w)) ''gstin'') then
              Throw TypeError
            else
              (case g_invoiceData w of
                 Inl e \<Rightarrow> Throw e
               | Inr invoiceData \<Rightarrow>
                   Continue (unitId, customerId, db_data (g_rpc w), invoiceData))))"

text \<open>Lines 252 to 266: the response to an authenticate answer whose status is not 1.\<close>

definition authentication_error_reply :: "jsval \<Rightarrow> string \<Rightarrow> reply" where
  "authentication_error_reply authApiData timestamp =
     \<lparr>reply_status = 400,
      reply_body = JObj
        [(''error'', JStr ''IRN Generation Failed - Authentication Error''),
         (''details'',
            js_or (js_get authApiData ''errorMessage'')
              (js_or (js_get authApiData ''message'') (JStr ''Failed to get access token''))),
         (''apiResponse'', JObj
            [(''status'', js_get authApiData ''status''),
             (''errorCode'', js_get authApiData ''errorCode''),
             (''timestamp'', JStr timestamp)])]\<rparr>"

text \<open>Step 1 (lines 194 to 276): the access token, from the cache or from the authenticate call.\<close>

definition gen_access_token :: "host \<Rightarrow> gen_world \<Rightarrow> run_state \<Rightarrow> jsval step \<times> run_state" where
  "gen_access_token h w st =
     (let bearer = getAccessToken (st_cache st) (g_now_getAccessToken w)
      in if truthy bearer then (Continue bearer, st)
         else
           (let st1 = issue Authenticate st
            in case g_authenticate w of
                 Inl e \<Rightarrow> (Throw e, st1)
               | Inr authResponse \<Rightarrow>
                   if \<not> resp_ok authResponse then
                     (case http_error_message h authResponse [''errorMessage'', ''message''] of
                        Inl e \<Rightarrow> (Throw e, st1)
                      | Inr errorMessage \<Rightarrow>
                          (Return (api_error_reply
                                     ''IRN Generation Failed - Authentication API Error''
                                     errorMessage authResponse (g_timestamp w)), st1))
                   else
                     (case resp_json authResponse of
                        Inl e \<Rightarrow> (Throw e, st1)
                      | Inr authApiData \<Rightarrow>
                          if nullish authApiData then (Throw TypeError, st1)
                          else if js_get authApiData ''status'' \<noteq> JNum 1 then
                            (Return (authentication_error_reply authApiData (g_timestamp w)), st1)
                          else if nullish (js_get authApiData ''data'') then (Throw TypeError, st1)
                          else
                            (let token = js_get (js_get authApiData ''data'') ''accessToken''
                             in (Continue token,
                                 st1\<lparr>st_cache :=
                                       setAccessToken token (g_now_setAccessToken w)
                                         (st_cache st1)\<rparr>)))))"

text \<open>Step 2 (lines 278 to 362): the session bundle, from the cache or from enhanced authentication.\<close>

definition gen_auth_data ::
  "host \<Rightarrow> gen_world \<Rightarrow> jsval \<Rightarrow> run_state \<Rightarrow> jsval step \<times> run_state" where
  "gen_auth_data h w bearer st =
     (let authData = getAuthData (st_cache st) (g_now_getAuthData w)
      in if truthy authData then (Continue authData, st)
         else
           (let forceRefresh = shouldForceRefresh (st_cache st) (g_now_shouldForceRefresh w);
                st1 = issue (EnhancedAuth bearer forceRefresh) st
            in case g_enhanced w of
                 Inl e \<Rightarrow> (Throw e, st1)
               | Inr enhancedAuthResponse \<Rightarrow>
                   if \<not> resp_ok enhancedAuthResponse then
                     (case http_error_message h enhancedAuthResponse
                             [''ErrorMessage'', ''Message'', ''message''] of
                        Inl e \<Rightarrow> (Throw e, st1)
                      | Inr errorMessage \<Rightarrow>
                          (Return (api_error_reply
                                     ''IRN Generation Failed - Enhanced Authentication API Error''
                                     errorMessage enhancedAuthResponse (g_timestamp w)), st1))
                   else
                     (case resp_json enhancedAuthResponse of
                        Inl e \<Rightarrow> (Throw e, st1)
                      | Inr enhancedAuthData \<Rightarrow>
                          if nullish enhancedAuthData then (Throw TypeError, st1)
                          else if js_get enhancedAuthData ''Status'' \<noteq> JNum 1 then
                            (Return
                               \<lparr>reply_status = 400,
                                reply_body = JObj
                                  [(''error'',
                                      JStr ''IRN Generation Failed - Enhanced Authentication Error''),
                                   (''details'',
                                      js_or (js_get enhancedAuthData ''ErrorMessage'')
                                        (js_or (js_get enhancedAuthData ''Message'')
                                           (JStr ''Enhanced authentication failed''))),
                                   (''apiResponse'', JObj
                                      [(''status'', js_get enhancedAuthData ''Status''),
                                       (''errorCode'', js_get enhancedAuthData ''ErrorCode''),
                                       (''timestamp'', JStr (g_timestamp w))])]\<rparr>, st1)
                          else if nullish (js_get enhancedAuthData ''Data'') then
                            (Throw TypeError, st1)
                          else
                            (let d = js_get enhancedAuthData ''Data'';
                                 fresh = JObj [(''authToken'', js_get d ''AuthToken''),
                                               (''sek'', js_get d ''Sek''),
                                               (''userName'', js_get d ''UserName'')]
                             in (Continue fresh,
                                 st1\<lparr>st_cache :=
                                       setAuthData (js_get fresh ''authToken'') (js_get fresh ''sek'')
                                         (js_get fresh ''userName'') (g_now_setAuthData w)
                                         (st_cache st1)\<rparr>)))))"

text \<open>
  Lines 409 to 483: the message and the code of a response whose \<^verbatim>\<open>Irn\<close> is falsy. The
  callback of \<^verbatim>\<open>map\<close> reads \<^verbatim>\<open>err.ErrorMessage\<close> of every entry that is not a string, which
  throws on \<^verbatim>\<open>null\<close>.
\<close>

definition extract_message :: "host \<Rightarrow> jsval \<Rightarrow> js_exn + jsval" where
  "extract_message h err =
     (if typeof_string err then Inr err
      else if nullish err then Inl TypeError
      else if truthy (js_get err ''ErrorMessage'') then Inr (js_get err ''ErrorMessage'')
      else if truthy (js_get err ''message'') then Inr (js_get err ''message'')
      else Inr (JStr (JSON_stringify h err)))"

definition irn_error_details :: "host \<Rightarrow> jsval \<Rightarrow> js_exn + (jsval \<times> jsval)" where
  "irn_error_details h irnData =
     (if truthy (js_get irnData ''ErrorMessage'') then
        Inr (js_get irnData ''ErrorMessage'', js_get irnData ''ErrorCode'')
      else if truthy (js_get irnData ''ErrorDetails'')
              \<and> isArray (js_get irnData ''ErrorDetails'')
              \<and> length (elems (js_get irnData ''ErrorDetails'')) > 0 then
        (case map_exn (extract_message h) (elems (js_get irnData ''ErrorDetails'')) of
           Inl e \<Rightarrow> Inl e
         | Inr errorMessages \<Rightarrow>
             (let uniqueErrors = new_Set errorMessages;
                  firstError = hd (elems (js_get irnData ''ErrorDetails''))
              in Inr (JStr (join h '', '' uniqueErrors),
                      if truthy firstError \<and> truthy (js_get firstError ''ErrorCode'')
                      then js_get firstError ''ErrorCode''
                      else JNull)))
      else if truthy (js_get irnData ''errorMessage'') then
        Inr (js_get irnData ''errorMessage'', JNull)
      else if truthy (js_get irnData ''ValidationErrors'')
              \<and> isArray (js_get irnData ''ValidationErrors'') then
        (case map_exn (extract_message h) (elems (js_get irnData ''ValidationErrors'')) of
           Inl e \<Rightarrow> Inl e
         | Inr validationMessages \<Rightarrow>
             Inr (JStr (join h '', '' (new_Set validationMessages)), JNull))
      else if truthy (js_get irnData ''message'') then
        Inr (js_get irnData ''message'', JNull)
      else Inr (JStr ''IRN generation was unsuccessful'', JNull))"

text \<open>Step 3 (lines 364 to 487): the generate-IRN call and the reading of its response.\<close>

definition gen_irn_call ::
  "host \<Rightarrow> gen_world \<Rightarrow> jsval \<Rightarrow> jsval \<Rightarrow> jsval \<Rightarrow> run_state \<Rightarrow> jsval step \<times> run_state" where
  "gen_irn_call h w invoiceData bearer authData st =
     (let st1 = issue (GenerateIrn bearer authData invoiceData) st
      in case g_generate w of
           Inl e \<Rightarrow> (Throw e, st1)
         | Inr irnResponse \<Rightarrow>
             if \<not> resp_ok irnResponse then
               (case http_error_message h irnResponse [''ErrorMessage'', ''message''] of
                  Inl e \<Rightarrow> (Throw e, st1)
                | Inr errorMessage \<Rightarrow>
                    (Return (api_error_reply ''IRN Generation Failed - API Error''
                               errorMessage irnResponse (g_timestamp w)), st1))
             else
               (case resp_json irnResponse of
                  Inl e \<Rightarrow> (Throw e, st1)
                | Inr irnData \<Rightarrow>
                    if nullish irnData then (Throw TypeError, st1)
                    else if \<not> truthy (js_get irnData ''Irn'') then
                      (case irn_error_details h irnData of
                         Inl e \<Rightarrow> (Throw e, st1)
                       | Inr (errorDetails, errorCode) \<Rightarrow>
                           (Return
                              \<lparr>reply_status = 400,
                               reply_body = JObj
                                 [(''error'', JStr ''IRN Generation Failed''),
                                  (''details'', errorDetails),
                                  (''errorCode'', errorCode),
                                  (''apiResponse'', JObj
                                     [(''status'', js_get irnData ''Status''),
                                      (''errorCode'', errorCode),
                                      (''timestamp'', JStr (g_timestamp w))])]\<rparr>, st1))
                    else (Continue irnData, st1)))"

text \<open>
  Lines 185 to 493: the three steps, skipped for a NON BILLING invoice, where \<open>irnData\<close>
  stays \<^verbatim>\<open>null\<close>.
\<close>

definition gen_irn_section ::
  "host \<Rightarrow> gen_world \<Rightarrow> jsval \<Rightarrow> run_state \<Rightarrow> jsval step \<times> run_state" where
  "gen_irn_section h w invoiceData st =
     (if body_get (g_body w) ''invoice_type'' \<noteq> JStr ''NON BILLING'' then
        and_then (gen_access_token h w st) (\<lambda>bearer st1.
          and_then (gen_auth_data h w bearer st1) (\<lambda>authData st2.
            gen_irn_call h w invoiceData bearer authData st2))
      else (Continue JNull, st))"

text \<open>
  Lines 496 to 511: the row to insert. The spread of the request body (without
  \<^verbatim>\<open>delivery_address_id\<close>) comes first; each later property replaces one of the same name
  or is appended.
\<close>

definition obj_assign :: "(string \<times> jsval) list \<Rightarrow> (string \<times> jsval) list \<Rightarrow> (string \<times> jsval) list" where
  "obj_assign obj props = foldl (\<lambda>acc (k, v). AList.update k v acc) obj props"

definition irn_fields :: "host \<Rightarrow> jsval \<Rightarrow> (string \<times> jsval) list" where
  "irn_fields h irnData =
     [(''irn'', js_get irnData ''Irn''),
      (''qrcode'', js_get irnData ''SignedQRCode''),
      (''ack_no'', js_get irnData ''AckNo''),
      (''ack_dt'', if truthy (js_get irnData ''AckDt'')
                   then js_Date h (js_get irnData ''AckDt'') else JNull),
      (''signed_invoice'', js_get irnData ''SignedInvoice''),
      (''einvoice_status'', JStr ''GENERATED'')]"

definition invoiceInsertData ::
  "host \<Rightarrow> gen_world \<Rightarrow> jsval \<Rightarrow> jsval \<Rightarrow> jsval \<Rightarrow> jsval \<Rightarrow> (string \<times> jsval) list" where
  "invoiceInsertData h w unitId invoice_no invoiceData irnData =
     obj_assign (AList.delete ''delivery_address_id'' (g_body w))
       ([(''unit_id'', unitId),
         (''invoice_no'', invoice_no),
         (''discount'', js_Number h (js_or (body_get (g_body w) ''discount'') (JNum 0))),
         (''gst_percentage'',
            js_Number h (js_or (body_get (g_body w) ''gst_percentage'') (JNum 18))),
         (''invoice_data'', invoiceData)]
        @ (if truthy irnData then irn_fields h irnData else []))"

text \<open>
  Lines 513 to 610: the insert, the update of the order when the body names a purchase
  order that the data store finds, and the response.
\<close>

definition gen_persist ::
  "host \<Rightarrow> gen_world \<Rightarrow> jsval \<Rightarrow> jsval \<Rightarrow> jsval \<Rightarrow> jsval \<Rightarrow> jsval \<Rightarrow> run_state
     \<Rightarrow> finish \<times> run_state" where
  "gen_persist h w unitId customerId invoice_no invoiceData irnData st =
     (let st1 = db_issue (InsertInvoice
                   (invoiceInsertData h w unitId invoice_no invoiceData irnData)) st;
          invoiceResult = db_data (g_insert w);
          invoiceError = db_error (g_insert w)
      in if truthy invoiceError then
           (Replied
              \<lparr>reply_status = 500,
               reply_body = JObj
                 [(''error'', JStr ''Invoice creation failed''),
                  (''details'', js_get invoiceError ''message'')]\<rparr>, st1)
         else
           (let st2 =
                  (if truthy (body_get (g_body w) ''po_number'')
                      \<and> \<not> truthy (db_error (g_order w)) \<and> truthy (db_data (g_order w))
                   then db_issue (UpdateOrder (body_get (g_body w) ''po_number'') customerId) st1
                   else st1)
            in if truthy irnData then
                 (if nullish invoiceResult then (Thrown TypeError, st2)
                  else
                    (Replied
                       \<lparr>reply_status = 200,
                        reply_body = JObj
                          [(''invoice'', invoiceResult),
                           (''irn'', JObj
                              [(''irn'', js_get invoiceResult ''irn''),
                               (''qrcode'', js_get invoiceResult ''qrcode''),
                               (''ack_no'', js_get invoiceResult ''ack_no''),
                               (''status'', JStr ''GENERATED'')])]\<rparr>, st2))
               else
                 (Replied
                    \<lparr>reply_status = 200,
                     reply_body = JObj [(''invoice'', invoiceResult)]\<rparr>, st2)))"

text \<open>The \<^verbatim>\<open>try\<close> block of the handler, and its \<^verbatim>\<open>catch\<close> (lines 611 to 617).\<close>

definition gen_try :: "host \<Rightarrow> gen_world \<Rightarrow> run_state \<Rightarrow> finish \<times> run_state" where
  "gen_try h w st =
     (case gen_preamble h w of
        Return r \<Rightarrow> (Replied r, st)
      | Throw e \<Rightarrow> (Thrown e, st)
      | Continue (unitId, customerId, invoice_no, invoiceData) \<Rightarrow>
          (case gen_irn_section h w invoiceData st of
             (Return r, st1) \<Rightarrow> (Replied r, st1)
           | (Throw e, st1) \<Rightarrow> (Thrown e, st1)
           | (Continue irnData, st1) \<Rightarrow>
               gen_persist h w unitId customerId invoice_no invoiceData irnData st1))"

definition gen_catch :: "host \<Rightarrow> js_exn \<Rightarrow> reply" where
  "gen_catch h e = error_reply 500 (js_or (JStr (exn_message h e)) (JStr ''Unknown error''))"

definition finished :: "(js_exn \<Rightarrow> reply) \<Rightarrow> finish \<times> run_state \<Rightarrow> result" where
  "finished catch fs =
     \<lparr>res_reply = (case fst fs of Replied r \<Rightarrow> r | Thrown e \<Rightarrow> catch e),
      res_cache = st_cache (snd fs),
      res_calls = st_calls (snd fs),
      res_writes = st_writes (snd fs)\<rparr>"

definition start :: "cache \<Rightarrow> run_state" where
  "start c = \<lparr>st_cache = c, st_calls = [], st_writes = []\<rparr>"

definition generateIrnRoute :: "host \<Rightarrow> gen_world \<Rightarrow> cache \<Rightarrow> result" where
  "generateIrnRoute h w c = finished (gen_catch h) (gen_try h w (start c))"

section \<open>The cancel-IRN handler (src/routes/cancelrnRoute.js, the version with the cache)\<close>

text \<open>
  What the handler reads from outside: the request body, the two rows it looks up, the clock
  at each call of the token cache, what the three remote endpoints answer, and the errors
  of its two writes (\<^verbatim>\<open>null\<close> when a write succeeds).
\<close>

record cancel_world =
  c_body :: "(string \<times> jsval) list"
  c_invoice :: jsval
  c_unit :: jsval
  c_now_getAccessToken :: nat
  c_now_setAccessToken :: nat
  c_now_getAuthData :: nat
  c_now_shouldForceRefresh :: nat
  c_now_setAuthData :: nat
  c_authenticate :: "js_exn + fetch_response"
  c_enhanced :: "js_exn + fetch_response"
  c_cancel :: "js_exn + fetch_response"
  c_insert_error :: jsval
  c_update_error :: jsval

definition failure_reply :: "nat \<Rightarrow> string \<Rightarrow> reply" where
  "failure_reply n msg =
     \<lparr>reply_status = n,
      reply_body = JObj [(''status'', JNum 0), (''errorMessage'', JStr msg)]\<rparr>"

text \<open>Lines 263 to 306: the checks before the remote calls; \<open>None\<close> when all pass.\<close>

definition cancel_preamble :: "cancel_world \<Rightarrow> reply option" where
  "cancel_preamble w =
     (if \<not> truthy (body_get (c_body w) ''invoice_no'') \<or> \<not> truthy (body_get (c_body w) ''irn'')
         \<or> \<not> truthy (body_get (c_body w) ''cancel_reason_code'')
         \<or> \<not> truthy (body_get (c_body w) ''cancel_reason'') then
        Some (failure_reply 400
                ''invoice_no, irn, cancel_reason_code, and cancel_reason are required'')
      else if \<not> truthy (c_invoice w) then Some (failure_reply 404 ''Invoice not found'')
      else if \<not> truthy (c_unit w) then Some (failure_reply 404 ''Unit not found'')
      else None)"

text \<open>Step 1 (lines 310 to 343). A response whose status is not 1 is relayed as it is.\<close>

definition cancel_access_token :: "cancel_world \<Rightarrow> run_state \<Rightarrow> jsval step \<times> run_state" where
  "cancel_access_token w st =
     (let bearer = getAccessToken (st_cache st) (c_now_getAccessToken w)
      in if truthy bearer then (Continue bearer, st)
         else
           (let st1 = issue Authenticate st
            in case c_authenticate w of
                 Inl e \<Rightarrow> (Throw e, st1)
               | Inr response \<Rightarrow>
                   (case resp_json response of
                      Inl e \<Rightarrow> (Throw e, st1)
                    | Inr d \<Rightarrow>
                        if nullish d then (Throw TypeError, st1)
                        else if js_get d ''status'' \<noteq> JNum 1 then
                          (Return \<lparr>reply_status = 200, reply_body = d\<rparr>, st1)
                        else if nullish (js_get d ''data'') then (Throw TypeError, st1)
                        else
                          (let token = js_get (js_get d ''data'') ''accessToken''
                           in (Continue token,
                               st1\<lparr>st_cache :=
                                     setAccessToken token (c_now_setAccessToken w)
                                       (st_cache st1)\<rparr>)))))"

text \<open>Step 2 (lines 345 to 393).\<close>

definition cancel_auth_data :: "cancel_world \<Rightarrow> jsval \<Rightarrow> run_state \<Rightarrow> jsval step \<times> run_state" where
  "cancel_auth_data w bearer st =
     (let authData = getAuthData (st_cache st) (c_now_getAuthData w)
      in if truthy authData then (Continue authData, st)
         else
           (let forceRefresh = shouldForceRefresh (st_cache st) (c_now_shouldForceRefresh w);
                st1 = issue (EnhancedAuth bearer forceRefresh) st
            in case c_enhanced w of
                 Inl e \<Rightarrow> (Throw e, st1)
               | Inr authResponse \<Rightarrow>
                   (case resp_json authResponse of
                      Inl e \<Rightarrow> (Throw e, st1)
                    | Inr authResponseData \<Rightarrow>
                        if nullish authResponseData then (Throw TypeError, st1)
                        else if js_get authResponseData ''Status'' \<noteq> JNum 1 then
                          (Return \<lparr>reply_status = 200, reply_body = authResponseData\<rparr>, st1)
                        else if nullish (js_get authResponseData ''Data'') then
                          (Throw TypeError, st1)
                        else
                          (let d = js_get authResponseData ''Data'';
                               fresh = JObj [(''authToken'', js_get d ''AuthToken''),
                                             (''sek'', js_get d ''Sek''),
                                             (''userName'', js_get d ''UserName'')]
                           in (Continue fresh,
                               st1\<lparr>st_cache :=
                                     setAuthData (js_get fresh ''authToken'') (js_get fresh ''sek'')
                                       (js_get fresh ''userName'') (c_now_setAuthData w)
                                       (st_cache st1)\<rparr>)))))"

text \<open>
  Steps 3 to 5 (lines 395 to 487): the cancel call, and for a response whose \<^verbatim>\<open>Irn\<close> is
  not \<^verbatim>\<open>null\<close> the two writes.
\<close>

definition cancel_irn_call :: "cancel_world \<Rightarrow> jsval \<Rightarrow> jsval \<Rightarrow> run_state \<Rightarrow> finish \<times> run_state" where
  "cancel_irn_call w bearer authData st =
     (let invoice_no = body_get (c_body w) ''invoice_no'';
          irn = body_get (c_body w) ''irn'';
          cancel_reason_code = body_get (c_body w) ''cancel_reason_code'';
          cancel_reason = body_get (c_body w) ''cancel_reason'';
          st1 = issue (CancelIrn bearer authData
                         (JObj [(''Irn'', irn), (''CnlRsn'', cancel_reason_code),
                                (''CnlRem'', js_or cancel_reason (JStr []))])) st
      in case c_cancel w of
           Inl e \<Rightarrow> (Thrown e, st1)
         | Inr cancelResponse \<Rightarrow>
             (case resp_json cancelResponse of
                Inl e \<Rightarrow> (Thrown e, st1)
              | Inr cancelData \<Rightarrow>
                  if nullish cancelData then (Thrown TypeError, st1)
                  else if js_get cancelData ''Irn'' \<noteq> JNull then
                    (let st2 = db_issue (InsertCanceledInvoice invoice_no irn
                                           cancel_reason_code cancel_reason) st1
                     in if truthy (c_insert_error w) then
                          (Replied
                             \<lparr>reply_status = 500,
                              reply_body = JObj
                                [(''status'', JNum 0),
                                 (''errorMessage'', JStr ''Failed to record cancellation''),
                                 (''details'', c_insert_error w)]\<rparr>, st2)
                        else
                          (let st3 = db_issue (UpdateInvoiceCancelled invoice_no) st2
                           in if truthy (c_update_error w) then
                                (Replied
                                   \<lparr>reply_status = 500,
                                    reply_body = JObj
                                      [(''status'', JNum 0),
                                       (''errorMessage'', JStr ''Failed to update invoice status''),
                                       (''details'', c_update_error w)]\<rparr>, st3)
                              else (Replied \<lparr>reply_status = 200, reply_body = cancelData\<rparr>, st3)))
                  else (Replied \<lparr>reply_status = 200, reply_body = cancelData\<rparr>, st1)))"

definition cancel_try :: "cancel_world \<Rightarrow> run_state \<Rightarrow> finish \<times> run_state" where
  "cancel_try w st =
     (case cancel_preamble w of
        Some r \<Rightarrow> (Replied r, st)
      | None \<Rightarrow>
          (case cancel_access_token w st of
             (Return r, st1) \<Rightarrow> (Replied r, st1)
           | (Throw e, st1) \<Rightarrow> (Thrown e, st1)
           | (Continue bearer, st1) \<Rightarrow>
               (case cancel_auth_data w bearer st1 of
                  (Return r, st2) \<Rightarrow> (Replied r, st2)
                | (Throw e, st2) \<Rightarrow> (Thrown e, st2)
                | (Continue authData, st2) \<Rightarrow> cancel_irn_call w bearer authData st2)))"

definition cancel_catch :: "js_exn \<Rightarrow> reply" where
  "cancel_catch e = failure_reply 500 ''Internal server error''"

definition cancelIrnRoute :: "cancel_world \<Rightarrow> cache \<Rightarrow> result" where
  "cancelIrnRoute w c = finished cancel_catch (cancel_try w (start c))"

section \<open>Invocations of the orchestrator\<close>

text \<open>
  A request to either route, with the world it runs in. Requests are served one after the
  other on the module's cache: the second starts from the cache the first left.
\<close>

datatype invocation = GenerateRequest gen_world | CancelRequest cancel_world

fun invoke :: "host \<Rightarrow> invocation \<Rightarrow> cache \<Rightarrow> result" where
  "invoke h (GenerateRequest w) c = generateIrnRoute h w c"
| "invoke h (CancelRequest w) c = cancelIrnRoute w c"

text \<open>The cached credentials are valid for a request: both reads of the cache it makes succeed.\<close>

fun credentials_valid :: "cache \<Rightarrow> invocation \<Rightarrow> bool" where
  "credentials_valid c (GenerateRequest w) =
     (getAccessToken c (g_now_getAccessToken w) \<noteq> JNull
      \<and> getAuthData c (g_now_getAuthData w) \<noteq> JNull)"
| "credentials_valid c (CancelRequest w) =
     (getAccessToken c (c_now_getAccessToken w) \<noteq> JNull
      \<and> getAuthData c (c_now_getAuthData w) \<noteq> JNull)"

fun is_auth_call :: "remote_call \<Rightarrow> bool" where
  "is_auth_call Authenticate = True"
| "is_auth_call (EnhancedAuth t f) = True"
| "is_auth_call (GenerateIrn t a d) = False"
| "is_auth_call (CancelIrn t a d) = False"

section \<open>The error message of a failed response\<close>

text \<open>What the handler computes (lines 409 to 483), without the error code.\<close>

definition errorDetails :: "host \<Rightarrow> jsval \<Rightarrow> js_exn + jsval" where
  "errorDetails h irnData =
     (case irn_error_details h irnData of Inl e \<Rightarrow> Inl e | Inr (details, errorCode) \<Rightarrow> Inr details)"

section \<open>The error normalisation, as the specification words it\<close>


















section \<open>The claims about the cache, as conditions on a history\<close>

text \<open>
  The force-refresh window as the claim words it, an open interval of elapsed times, and as
  the code computes it, closed at its lower end.
\<close>

definition in_open_refresh_window :: "(nat \<times> cache_op) list \<Rightarrow> nat \<Rightarrow> bool" where
  "in_open_refresh_window ops now =
     (case last_access_set ops of
        None \<Rightarrow> False
      | Some (t, token) \<Rightarrow>
          int TOKEN_VALIDITY_MS - int FORCE_REFRESH_WINDOW_MS < elapsed t now
          \<and> elapsed t now < int TOKEN_VALIDITY_MS)"

definition in_refresh_window :: "(nat \<times> cache_op) list \<Rightarrow> nat \<Rightarrow> bool" where
  "in_refresh_window ops now =
     (case last_access_set ops of
        None \<Rightarrow> False
      | Some (t, token) \<Rightarrow>
          int TOKEN_VALIDITY_MS - int FORCE_REFRESH_WINDOW_MS \<le> elapsed t now
          \<and> elapsed t now < int TOKEN_VALIDITY_MS)"

text \<open>The session bundle a history leaves: the latest \<^verbatim>\<open>setAuthData\<close> not cleared since.\<close>

fun note_auth_set ::
  "(nat \<times> jsval \<times> jsval \<times> jsval) option \<Rightarrow> nat \<times> cache_op \<Rightarrow> (nat \<times> jsval \<times> jsval \<times> jsval) option" where
  "note_auth_set acc (t, SetAccessToken token) = acc"
| "note_auth_set acc (t, SetAuthData a s u) = Some (t, a, s, u)"
| "note_auth_set acc (t, ClearTokenCache) = None"

definition last_auth_set :: "(nat \<times> cache_op) list \<Rightarrow> (nat \<times> jsval \<times> jsval \<times> jsval) option" where
  "last_auth_set ops = foldl note_auth_set None ops"

text \<open>
  The claim's condition on the session: all three fields are set (hold a value other than
  \<^verbatim>\<open>null\<close> and \<^verbatim>\<open>undefined\<close>) and the validity window has not passed.
\<close>

definition all_three_set_and_unexpired :: "(nat \<times> cache_op) list \<Rightarrow> nat \<Rightarrow> bool" where
  "all_three_set_and_unexpired ops now =
     (case last_auth_set ops of
        None \<Rightarrow> False
      | Some (t, a, s, u) \<Rightarrow>
          \<not> nullish a \<and> \<not> nullish s \<and> \<not> nullish u \<and> elapsed t now < int TOKEN_VALIDITY_MS)"

definition session :: "jsval \<Rightarrow> jsval \<Rightarrow> jsval \<Rightarrow> jsval" where
  "session a s u = JObj [(''authToken'', a), (''sek'', s), (''userName'', u)]"

definition initial_tokenCache :: tokenCache where
  "initial_tokenCache =
     \<lparr>tc_accessToken = JNull, expiresAt = None, tc_authToken = JNull,
      tc_sek = JNull, tc_userName = JNull, authExpiresAt = None\<rparr>"

section \<open>What a request with valid cached credentials calls\<close>

text \<open>
  The one remote call of a request that finds both credentials in the cache \<open>c\<close>: the target
  operation, with the cached credentials; none when the request ends before the IRN steps.
\<close>

fun target_calls :: "host \<Rightarrow> invocation \<Rightarrow> cache \<Rightarrow> remote_call list" where
  "target_calls h (GenerateRequest w) c =
     (case gen_preamble h w of
        Continue (unitId, customerId, invoice_no, invoiceData) \<Rightarrow>
          if body_get (g_body w) ''invoice_type'' \<noteq> JStr ''NON BILLING''
          then [GenerateIrn (getAccessToken c (g_now_getAccessToken w))
                  (getAuthData c (g_now_getAuthData w)) invoiceData]
          else []
      | Return r \<Rightarrow> []
      | Throw e \<Rightarrow> [])"
| "target_calls h (CancelRequest w) c =
     (case cancel_preamble w of
        None \<Rightarrow>
          [CancelIrn (getAccessToken c (c_now_getAccessToken w))
             (getAuthData c (c_now_getAuthData w))
             (JObj [(''Irn'', body_get (c_body w) ''irn''),
                    (''CnlRsn'', body_get (c_body w) ''cancel_reason_code''),
                    (''CnlRem'', js_or (body_get (c_body w) ''cancel_reason'') (JStr []))])]
      | Some r \<Rightarrow> [])"

section \<open>Concrete worlds\<close>

text \<open>
  The scenarios of the specification, as worlds to run the handlers in. The host functions
  are stand-ins: no scenario depends on how a number or an object is printed.
\<close>

definition demo_host :: host where
  "demo_host =
     \<lparr>js_String = (\<lambda>v. ''[value]''),
      JSON_stringify = (\<lambda>v. ''[json]''),
      js_Number = (\<lambda>v. v),
      js_Date = (\<lambda>v. v),
      type_error_message = ''Cannot read properties of null''\<rparr>"

definition json_response :: "jsval \<Rightarrow> fetch_response" where
  "json_response d =
     \<lparr>resp_ok = True, resp_status = 200, resp_statusText = ''OK'',
      resp_contentType = Some ''application/json'', resp_text = Inr [], resp_json = Inr d\<rparr>"

definition row_ok :: "jsval \<Rightarrow> db_result" where
  "row_ok d = \<lparr>db_data = d, db_error = JNull\<rparr>"

text \<open>
  Scenario A: authenticate, enhanced authentication and generate-IRN all succeed, and so
  does the insert.
\<close>

definition scenario_A :: gen_world where
  "scenario_A =
     \<lparr>g_env = (\<lambda>k. Some ''configured''),
      g_body = [(''unit_id'', JNum 15), (''customer_id'', JNum 7),
                (''invoice_type'', JStr ''BILLING''), (''grade'', JStr ''M20'')],
      g_rpc = row_ok (JStr ''U-15/0009/2025-26''),
      g_customer = row_ok (JObj [(''name'', JStr ''Acme''), (''gstin'', JStr ''33AAAAA0000A1Z5'')]),
      g_unit = row_ok (JObj [(''address'', JStr ''Plant 1'')]),
      g_invoiceData = Inr (JObj [(''Version'', JStr ''1.1'')]),
      g_now_getAccessToken = 1000,
      g_now_setAccessToken = 1200,
      g_now_getAuthData = 1201,
      g_now_shouldForceRefresh = 1202,
      g_now_setAuthData = 1400,
      g_authenticate =
        Inr (json_response
               (JObj [(''status'', JNum 1), (''data'', JObj [(''accessToken'', JStr ''tok1'')])])),
      g_enhanced =
        Inr (json_response
               (JObj [(''Status'', JNum 1),
                      (''Data'', JObj [(''AuthToken'', JStr ''at1''), (''Sek'', JStr ''s1''),
                                       (''UserName'', JStr ''u1'')])])),
      g_generate =
        Inr (json_response
               (JObj [(''Irn'', JStr ''IRN123''), (''AckNo'', JStr ''A1''),
                      (''SignedQRCode'', JStr ''qr'')])),
      g_insert = row_ok (JObj [(''id'', JNum 1), (''irn'', JStr ''IRN123''),
                               (''qrcode'', JStr ''qr''), (''ack_no'', JStr ''A1'')]),
      g_order = row_ok JNull,
      g_timestamp = ''2024-01-01T00:00:00.000Z''\<rparr>"

text \<open>Scenario B: authenticate answers \<^verbatim>\<open>{status: 0}\<close>.\<close>

definition scenario_B :: gen_world where
  "scenario_B =
     scenario_A\<lparr>g_authenticate :=
                  Inr (json_response (JObj [(''status'', JNum 0)]))\<rparr>"

text \<open>A cache that holds both credentials, stored at time 0.\<close>

definition warm_cache :: cache where
  "warm_cache =
     setAuthData (JStr ''at1'') (JStr ''s1'') (JStr ''u1'') 0
       (setAccessToken (JStr ''tok1'') 0 initial_cache)"









text \<open>The IRN is issued and the insert of the invoice fails.\<close>

definition insert_fails :: gen_world where
  "insert_fails =
     scenario_A\<lparr>g_insert :=
                  \<lparr>db_data = JNull, db_error = JObj [(''message'', JStr ''insert failed'')]\<rparr>\<rparr>"

text \<open>
  Scenario D: cancel-IRN answers \<^verbatim>\<open>{Irn: "IRN123", CancelDate: "2024-01-01"}\<close> and the
  insert into \<^verbatim>\<open>canceled_invoices\<close> fails.
\<close>

definition scenario_D :: cancel_world where
  "scenario_D =
     \<lparr>c_body = [(''invoice_no'', JStr ''U-15/0009/2025-26''), (''irn'', JStr ''IRN123''),
                (''cancel_reason_code'', JStr ''1''), (''cancel_reason'', JStr ''Duplicate'')],
      c_invoice = JObj [(''id'', JNum 1), (''unit_id'', JNum 15)],
      c_unit = JObj [(''gstin'', JStr ''33AAAAA0000A1Z5'')],
      c_now_getAccessToken = 2000,
      c_now_setAccessToken = 2200,
      c_now_getAuthData = 2201,
      c_now_shouldForceRefresh = 2202,
      c_now_setAuthData = 2400,
      c_authenticate =
        Inr (json_response
               (JObj [(''status'', JNum 1), (''data'', JObj [(''accessToken'', JStr ''tok2'')])])),
      c_enhanced =
        Inr (json_response
               (JObj [(''Status'', JNum 1),
                      (''Data'', JObj [(''AuthToken'', JStr ''at2''), (''Sek'', JStr ''s2''),
                                       (''UserName'', JStr ''u2'')])])),
      c_cancel =
        Inr (json_response
               (JObj [(''Irn'', JStr ''IRN123''), (''CancelDate'', JStr ''2024-01-01'')])),
      c_insert_error = JObj [(''message'', JStr ''insert failed'')],
      c_update_error = JNull\<rparr>"

text \<open>A NON BILLING request whose body carries an \<^verbatim>\<open>irn\<close> of its own.\<close>

definition non_billing_with_irn :: gen_world where
  "non_billing_with_irn =
     scenario_A\<lparr>g_body := [(''unit_id'', JNum 15), (''customer_id'', JNum 7),
                            (''invoice_type'', JStr ''NON BILLING''),
                            (''irn'', JStr ''IRN-FROM-BODY'')],
                 g_insert := row_ok (JObj [(''id'', JNum 2)])\<rparr>"

text \<open>The names of the IRN fields of an invoice row.\<close>

definition irn_field_names :: "string list" where
  "irn_field_names =
     [''irn'', ''qrcode'', ''ack_no'', ''ack_dt'', ''signed_invoice'', ''einvoice_status'']"

text \<open>A NON BILLING request in an otherwise ordinary world.\<close>

definition non_billing_plain :: gen_world where
  "non_billing_plain =
     scenario_A\<lparr>g_body := [(''unit_id'', JNum 15), (''customer_id'', JNum 7),
                            (''invoice_type'', JStr ''NON BILLING''),
                            (''delivery_address_id'', JNum 3)],
                 g_insert := row_ok (JObj [(''id'', JNum 2)])\<rparr>"

text \<open>
  The writes of a request that skips the IRN steps: the insert of the row, and the update of
  the order when the insert succeeded, the body names a purchase order and the data store
  finds it.
\<close>

definition non_billing_writes ::
  "host \<Rightarrow> gen_world \<Rightarrow> jsval \<Rightarrow> jsval \<Rightarrow> jsval \<Rightarrow> jsval \<Rightarrow> db_write list" where
  "non_billing_writes h w unitId customerId invoice_no invoiceData =
     InsertInvoice (invoiceInsertData h w unitId invoice_no invoiceData JNull)
     # (if \<not> truthy (db_error (g_insert w)) \<and> truthy (body_get (g_body w) ''po_number'')
           \<and> \<not> truthy (db_error (g_order w)) \<and> truthy (db_data (g_order w))
        then [UpdateOrder (body_get (g_body w) ''po_number'') customerId]
        else [])"

section \<open>Properties of the token cache\<close>

lemma run_ops_snoc: "run_ops (ops @ [x]) = apply_op (run_ops ops) x"
  by (simp add: run_ops_def)

lemma last_access_set_snoc:
  "last_access_set (ops @ [x]) = note_access_set (last_access_set ops) x"
  by (simp add: last_access_set_def)

lemma run_ops_access_fields:
  "(case last_access_set ops of
      None \<Rightarrow> accessToken (run_ops ops) = JNull \<and> accessTokenExpiry (run_ops ops) = None
    | Some (t, token) \<Rightarrow>
        accessToken (run_ops ops) = token
        \<and> accessTokenExpiry (run_ops ops) = Some (t + TOKEN_VALIDITY_MS))"
proof (induction ops rule: rev_induct)
  case Nil
  show ?case by (simp add: last_access_set_def run_ops_def initial_cache_def)
next
  case (snoc x ops)
  obtain now op where x: "x = (now, op)" by (cases x)
  show ?case
  proof (cases op)
    case (SetAccessToken token)
    with x show ?thesis
      by (simp add: run_ops_snoc last_access_set_snoc setAccessToken_def)
  next
    case (SetAuthData a s u)
    with x snoc.IH show ?thesis
      by (auto simp add: run_ops_snoc last_access_set_snoc setAuthData_def split: option.splits)
  next
    case ClearTokenCache
    with x show ?thesis
      by (simp add: run_ops_snoc last_access_set_snoc clearTokenCache_def)
  qed
qed

lemma TOKEN_VALIDITY_MS_pos: "0 < TOKEN_VALIDITY_MS"
  by (simp add: TOKEN_VALIDITY_MS_def)

lemma last_auth_set_snoc:
  "last_auth_set (ops @ [x]) = note_auth_set (last_auth_set ops) x"
  by (simp add: last_auth_set_def)

lemma run_ops_auth_fields:
  "(case last_auth_set ops of
      None \<Rightarrow> authToken (run_ops ops) = JNull \<and> authTokenExpiry (run_ops ops) = None
    | Some (t, a, s, u) \<Rightarrow>
        authToken (run_ops ops) = a \<and> sek (run_ops ops) = s \<and> userName (run_ops ops) = u
        \<and> authTokenExpiry (run_ops ops) = Some (t + TOKEN_VALIDITY_MS))"
proof (induction ops rule: rev_induct)
  case Nil
  show ?case by (simp add: last_auth_set_def run_ops_def initial_cache_def)
next
  case (snoc x ops)
  obtain now op where x: "x = (now, op)" by (cases x)
  show ?case
  proof (cases op)
    case (SetAccessToken token)
    with x snoc.IH show ?thesis
      by (auto simp add: run_ops_snoc last_auth_set_snoc setAccessToken_def split: option.splits)
  next
    case (SetAuthData a s u)
    with x show ?thesis
      by (simp add: run_ops_snoc last_auth_set_snoc setAuthData_def)
  next
    case ClearTokenCache
    with x show ?thesis
      by (simp add: run_ops_snoc last_auth_set_snoc clearTokenCache_def)
  qed
qed

text \<open>
  C1 (amended). After any history of cache operations and at any query time,
  \<^verbatim>\<open>getAccessToken()\<close> returns the token of the latest \<^verbatim>\<open>setAccessToken\<close> that no clear
  followed if that token is truthy and was set strictly less than \<^verbatim>\<open>TOKEN_VALIDITY_MS\<close> ago,
  and \<^verbatim>\<open>null\<close> otherwise; so it returns a value exactly when a truthy token was set within
  the validity window.
\<close>

theorem getAccessToken_after_history:
  "getAccessToken (run_ops ops) now =
     (case last_access_set ops of
        None \<Rightarrow> JNull
      | Some (t, token) \<Rightarrow>
          if truthy token \<and> elapsed t now < int TOKEN_VALIDITY_MS then token else JNull)
   \<and> (getAccessToken (run_ops ops) now \<noteq> JNull) = truthy_set_within_validity ops now"
  using run_ops_access_fields [of ops]
  by (auto simp add: getAccessToken_def expiry_gt_def elapsed_def
        truthy_set_within_validity_def split: option.splits)

text \<open>
  C1 as stated fails for a token that JavaScript counts as false: the empty string, set at
  time 0 and read at time 1, is within the validity window, and \<^verbatim>\<open>getAccessToken()\<close>
  returns \<^verbatim>\<open>null\<close>.
\<close>

theorem getAccessToken_empty_token_counterexample:
  "set_within_validity [(0, SetAccessToken (JStr []))] 1
   \<and> getAccessToken (run_ops [(0, SetAccessToken (JStr []))]) 1 = JNull"
  by (simp add: set_within_validity_def last_access_set_def elapsed_def TOKEN_VALIDITY_MS_def
        getAccessToken_def run_ops_def setAccessToken_def)

text \<open>
  C2 (amended). After any history and at any query time, \<^verbatim>\<open>shouldForceRefresh()\<close> is true
  exactly when an access token was set (and not cleared since) and the time elapsed since lies
  in the half-open interval from \<^verbatim>\<open>TOKEN_VALIDITY_MS - FORCE_REFRESH_WINDOW_MS\<close> (included) to
  \<^verbatim>\<open>TOKEN_VALIDITY_MS\<close> (excluded).
\<close>

theorem shouldForceRefresh_iff_in_window:
  "shouldForceRefresh (run_ops ops) now = in_refresh_window ops now"
  using run_ops_access_fields [of ops] TOKEN_VALIDITY_MS_pos
  by (auto simp add: shouldForceRefresh_def expiry_truthy_def elapsed_def in_refresh_window_def
        Let_def split: option.splits)

text \<open>
  C2 as stated fails at the lower end of the window: 350 minutes (21000000 ms) after the
  token was set, exactly \<^verbatim>\<open>FORCE_REFRESH_WINDOW_MS\<close> remain, \<^verbatim>\<open>shouldForceRefresh()\<close> is true,
  and the elapsed time is not inside the open interval.
\<close>

theorem shouldForceRefresh_window_edge_counterexample:
  "shouldForceRefresh (run_ops [(0, SetAccessToken (JStr ''tok1''))]) 21000000
   \<and> \<not> in_open_refresh_window [(0, SetAccessToken (JStr ''tok1''))] 21000000"
  by (simp add: shouldForceRefresh_def expiry_truthy_def elapsed_def in_open_refresh_window_def
        last_access_set_def run_ops_def setAccessToken_def TOKEN_VALIDITY_MS_def
        FORCE_REFRESH_WINDOW_MS_def)

text \<open>
  C7 (amended). After any history and at any query time, \<^verbatim>\<open>getAuthData()\<close> returns
  \<^verbatim>\<open>null\<close> unless the \<^verbatim>\<open>authToken\<close> of the latest \<^verbatim>\<open>setAuthData\<close> (not cleared since) is
  truthy and was stored less than \<^verbatim>\<open>TOKEN_VALIDITY_MS\<close> ago; then it returns the three fields
  as they were stored. \<^verbatim>\<open>sek\<close> and \<^verbatim>\<open>userName\<close> are not examined.
\<close>

theorem getAuthData_after_history:
  "getAuthData (run_ops ops) now =
     (case last_auth_set ops of
        None \<Rightarrow> JNull
      | Some (t, a, s, u) \<Rightarrow>
          if truthy a \<and> elapsed t now < int TOKEN_VALIDITY_MS then session a s u else JNull)"
  using run_ops_auth_fields [of ops] TOKEN_VALIDITY_MS_pos
  by (auto simp add: getAuthData_def expiry_gt_def expiry_truthy_def elapsed_def session_def
        split: option.splits)

text \<open>
  C7 as stated fails when \<^verbatim>\<open>sek\<close> and \<^verbatim>\<open>userName\<close> are unset: after
  \<^verbatim>\<open>setAuthData("at1", null, null)\<close> the read returns a session, although not all three
  fields are set.
\<close>

theorem getAuthData_unset_fields_counterexample:
  "getAuthData (run_ops [(0, SetAuthData (JStr ''at1'') JNull JNull)]) 1
     = session (JStr ''at1'') JNull JNull
   \<and> \<not> all_three_set_and_unexpired [(0, SetAuthData (JStr ''at1'') JNull JNull)] 1"
  by (simp add: getAuthData_def expiry_gt_def expiry_truthy_def session_def run_ops_def
        setAuthData_def all_three_set_and_unexpired_def last_auth_set_def nullish_def
        initial_cache_def TOKEN_VALIDITY_MS_def)

text \<open>
  C8 (amended). For every truthy \<open>a\<close> and all \<open>b\<close>, \<open>c\<close>: after \<^verbatim>\<open>setAuthData(a, b, c)\<close> at
  time \<open>now\<close>, a read at any time before \<open>now + TOKEN_VALIDITY_MS\<close> (in particular an immediate
  one) returns exactly \<^verbatim>\<open>{authToken: a, sek: b, userName: c}\<close>.
\<close>

theorem setAuthData_getAuthData_roundtrip:
  "truthy a \<Longrightarrow> later < now + TOKEN_VALIDITY_MS \<Longrightarrow>
     getAuthData (setAuthData a b c now cch) later
       = JObj [(''authToken'', a), (''sek'', b), (''userName'', c)]"
  using TOKEN_VALIDITY_MS_pos
  by (simp add: getAuthData_def setAuthData_def expiry_gt_def expiry_truthy_def)

theorem setAuthData_getAuthData_roundtrip_witness:
  "truthy (JStr ''at1'') \<and> (5::nat) < 5 + TOKEN_VALIDITY_MS
   \<and> getAuthData (setAuthData (JStr ''at1'') (JStr ''s1'') (JStr ''u1'') 5 initial_cache) 5
       = JObj [(''authToken'', JStr ''at1''), (''sek'', JStr ''s1''), (''userName'', JStr ''u1'')]"
  using setAuthData_getAuthData_roundtrip
          [of "JStr ''at1''" 5 5 "JStr ''s1''" "JStr ''u1''" initial_cache]
  by (simp add: TOKEN_VALIDITY_MS_def)

text \<open>
  C8 as stated fails for a falsy \<open>a\<close>: after \<^verbatim>\<open>setAuthData("", "s1", "u1")\<close> the immediate
  read returns \<^verbatim>\<open>null\<close>.
\<close>

theorem setAuthData_empty_token_counterexample:
  "getAuthData (setAuthData (JStr []) (JStr ''s1'') (JStr ''u1'') 5 initial_cache) 5 = JNull
   \<and> JNull \<noteq> JObj [(''authToken'', JStr []), (''sek'', JStr ''s1''), (''userName'', JStr ''u1'')]"
  by (simp add: getAuthData_def setAuthData_def TOKEN_VALIDITY_MS_def)

text \<open>
  C9 (amended). The first implementation keeps a token for 360 minutes and the second for
  60. For every truthy token stored at time \<open>t\<close> in both, and every query time with an elapsed
  time of at least 60 and less than 360 minutes, the first returns the token and the second
  \<^verbatim>\<open>null\<close>: the two \<^verbatim>\<open>getAccessToken\<close> disagree.
\<close>

theorem token_caches_disagree:
  "truthy token \<Longrightarrow> int TOKEN_VALIDITY_MS_v2 \<le> elapsed t now \<Longrightarrow>
   elapsed t now < int TOKEN_VALIDITY_MS \<Longrightarrow>
     TOKEN_VALIDITY_MS = 360 * 60000 \<and> TOKEN_VALIDITY_MS_v2 = 60 * 60000
     \<and> getAccessToken (setAccessToken token t c1) now = token
     \<and> getAccessToken_v2 (setAccessToken_v2 token t c2) now = JNull
     \<and> getAccessToken (setAccessToken token t c1) now
         \<noteq> getAccessToken_v2 (setAccessToken_v2 token t c2) now"
  by (auto simp add: getAccessToken_def setAccessToken_def getAccessToken_v2_def
        setAccessToken_v2_def expiry_gt_def elapsed_def TOKEN_VALIDITY_MS_def
        TOKEN_VALIDITY_MS_v2_def)

theorem token_caches_disagree_witness:
  "truthy (JStr ''tok1'') \<and> int TOKEN_VALIDITY_MS_v2 \<le> elapsed 0 3600000
   \<and> elapsed 0 3600000 < int TOKEN_VALIDITY_MS
   \<and> getAccessToken (setAccessToken (JStr ''tok1'') 0 initial_cache) 3600000 = JStr ''tok1''
   \<and> getAccessToken_v2 (setAccessToken_v2 (JStr ''tok1'') 0 initial_tokenCache) 3600000 = JNull"
  using token_caches_disagree [of "JStr ''tok1''" 0 3600000 initial_cache initial_tokenCache]
  by (simp add: elapsed_def TOKEN_VALIDITY_MS_def TOKEN_VALIDITY_MS_v2_def)

text \<open>
  C9 as stated fails for a falsy token: the empty string stored at time 0 in both
  implementations is returned by neither 60 minutes later, so they agree.
\<close>

theorem token_caches_agree_counterexample:
  "int TOKEN_VALIDITY_MS_v2 \<le> elapsed 0 3600000 \<and> elapsed 0 3600000 < int TOKEN_VALIDITY_MS
   \<and> getAccessToken (setAccessToken (JStr []) 0 initial_cache) 3600000
       = getAccessToken_v2 (setAccessToken_v2 (JStr []) 0 initial_tokenCache) 3600000"
  by (simp add: getAccessToken_def setAccessToken_def getAccessToken_v2_def
        setAccessToken_v2_def elapsed_def TOKEN_VALIDITY_MS_def TOKEN_VALIDITY_MS_v2_def)

section \<open>Properties of the handlers\<close>

subsection \<open>Evaluating the concrete worlds\<close>

lemmas world_defs = scenario_A_def json_response_def row_ok_def demo_host_def warm_cache_def

lemmas cache_defs = initial_cache_def getAccessToken_def setAccessToken_def getAuthData_def
  setAuthData_def shouldForceRefresh_def expiry_gt_def expiry_truthy_def TOKEN_VALIDITY_MS_def
  FORCE_REFRESH_WINDOW_MS_def

lemmas gen_defs = generateIrnRoute_def finished_def gen_try_def start_def gen_preamble_def
  missingEnvVars_def requiredEnvVars_def body_get_def js_get_def gen_irn_section_def and_then_def
  gen_access_token_def gen_auth_data_def gen_irn_call_def gen_persist_def issue_def db_issue_def
  nullish_def invoiceInsertData_def obj_assign_def irn_fields_def js_or_def error_reply_def
  gen_catch_def api_error_reply_def authentication_error_reply_def Let_def

lemmas cancel_defs = cancelIrnRoute_def finished_def cancel_try_def start_def cancel_preamble_def
  body_get_def js_get_def cancel_access_token_def cancel_auth_data_def cancel_irn_call_def
  issue_def db_issue_def nullish_def js_or_def failure_reply_def cancel_catch_def Let_def


text \<open>
  Scenario A of the specification: on an empty cache the handler calls authenticate,
  enhanced authentication and generate-IRN in this order, answers with the IRN, and leaves
  both credentials in the cache.
\<close>

lemma scenario_A_run:
  "generateIrnRoute demo_host scenario_A initial_cache =
     \<lparr>res_reply =
        \<lparr>reply_status = 200,
         reply_body = JObj
           [(''invoice'', JObj [(''id'', JNum 1), (''irn'', JStr ''IRN123''),
                                (''qrcode'', JStr ''qr''), (''ack_no'', JStr ''A1'')]),
            (''irn'', JObj [(''irn'', JStr ''IRN123''), (''qrcode'', JStr ''qr''),
                            (''ack_no'', JStr ''A1''), (''status'', JStr ''GENERATED'')])]\<rparr>,
      res_cache =
        setAuthData (JStr ''at1'') (JStr ''s1'') (JStr ''u1'') 1400
          (setAccessToken (JStr ''tok1'') 1200 initial_cache),
      res_calls =
        [Authenticate,
         EnhancedAuth (JStr ''tok1'') False,
         GenerateIrn (JStr ''tok1'') (session (JStr ''at1'') (JStr ''s1'') (JStr ''u1''))
           (JObj [(''Version'', JStr ''1.1'')])],
      res_writes =
        [InsertInvoice
           [(''unit_id'', JNum 15), (''customer_id'', JNum 7),
            (''invoice_type'', JStr ''BILLING''), (''grade'', JStr ''M20''),
            (''invoice_no'', JStr ''U-15/0009/2025-26''), (''discount'', JNum 0),
            (''gst_percentage'', JNum 18),
            (''invoice_data'', JObj [(''Version'', JStr ''1.1'')]),
            (''irn'', JStr ''IRN123''), (''qrcode'', JStr ''qr''), (''ack_no'', JStr ''A1''),
            (''ack_dt'', JNull), (''signed_invoice'', JUndefined),
            (''einvoice_status'', JStr ''GENERATED'')]]\<rparr>"
  by (simp add: world_defs gen_defs cache_defs session_def)

subsection \<open>The cache reads of the handlers\<close>

lemma truthy_getAccessToken: "truthy (getAccessToken c t) = (getAccessToken c t \<noteq> JNull)"
  by (auto simp add: getAccessToken_def)

lemma truthy_getAuthData: "truthy (getAuthData c t) = (getAuthData c t \<noteq> JNull)"
  by (simp add: getAuthData_def)

lemma finished_simps:
  "res_cache (finished k fs) = st_cache (snd fs)"
  "res_calls (finished k fs) = st_calls (snd fs)"
  "res_writes (finished k fs) = st_writes (snd fs)"
  by (simp_all add: finished_def)

lemma gen_access_token_cached:
  "getAccessToken (st_cache st) (g_now_getAccessToken w) \<noteq> JNull \<Longrightarrow>
     gen_access_token h w st
       = (Continue (getAccessToken (st_cache st) (g_now_getAccessToken w)), st)"
  by (simp add: gen_access_token_def truthy_getAccessToken Let_def)

lemma gen_auth_data_cached:
  "getAuthData (st_cache st) (g_now_getAuthData w) \<noteq> JNull \<Longrightarrow>
     gen_auth_data h w b st = (Continue (getAuthData (st_cache st) (g_now_getAuthData w)), st)"
  by (simp add: gen_auth_data_def truthy_getAuthData Let_def)

lemma gen_irn_call_state:
  "snd (gen_irn_call h w d b a st) = issue (GenerateIrn b a d) st"
  by (simp add: gen_irn_call_def Let_def split: sum.splits prod.splits)

lemma gen_persist_state:
  "st_cache (snd (gen_persist h w u cu n d i st)) = st_cache st
   \<and> st_calls (snd (gen_persist h w u cu n d i st)) = st_calls st"
  by (simp add: gen_persist_def Let_def db_issue_def)

lemma gen_auth_data_state:
  "st_writes (snd (gen_auth_data h w b st)) = st_writes st
   \<and> (st_calls (snd (gen_auth_data h w b st)) = st_calls st
      \<or> (\<exists>f. st_calls (snd (gen_auth_data h w b st)) = st_calls st @ [EnhancedAuth b f]))"
  by (simp add: gen_auth_data_def Let_def issue_def split: sum.splits)

lemma gen_irn_section_cached:
  assumes "getAccessToken (st_cache st) (g_now_getAccessToken w) \<noteq> JNull"
      and "getAuthData (st_cache st) (g_now_getAuthData w) \<noteq> JNull"
      and "body_get (g_body w) ''invoice_type'' \<noteq> JStr ''NON BILLING''"
  shows "gen_irn_section h w d st =
           gen_irn_call h w d (getAccessToken (st_cache st) (g_now_getAccessToken w))
             (getAuthData (st_cache st) (g_now_getAuthData w)) st"
  using assms
  by (simp add: gen_irn_section_def and_then_def gen_access_token_cached gen_auth_data_cached)

lemma gen_try_after_section:
  assumes "gen_preamble h w = Continue (u, cu, n, d)"
  shows "st_cache (snd (gen_try h w st)) = st_cache (snd (gen_irn_section h w d st))
         \<and> st_calls (snd (gen_try h w st)) = st_calls (snd (gen_irn_section h w d st))"
proof (cases "gen_irn_section h w d st")
  case (Pair out st1)
  then show ?thesis using assms
    by (cases out) (simp_all add: gen_try_def gen_persist_state)
qed

lemma generate_with_valid_credentials:
  assumes "credentials_valid c (GenerateRequest w)"
  shows "res_calls (generateIrnRoute h w c) = target_calls h (GenerateRequest w) c
         \<and> res_cache (generateIrnRoute h w c) = c"
proof (cases "gen_preamble h w")
  case (Continue x)
  obtain u cu n d where x: "x = (u, cu, n, d)" by (cases x) auto
  show ?thesis
  proof (cases "body_get (g_body w) ''invoice_type'' = JStr ''NON BILLING''")
    case True
    with Continue x show ?thesis
      using gen_try_after_section [of h w u cu n d "start c"]
      by (simp add: generateIrnRoute_def finished_simps gen_irn_section_def start_def)
  next
    case False
    with Continue x assms show ?thesis
      using gen_try_after_section [of h w u cu n d "start c"]
        gen_irn_section_cached [of "start c" w h d]
      by (simp add: generateIrnRoute_def finished_simps gen_irn_call_state start_def issue_def)
  qed
next
  case (Return r)
  then show ?thesis
    by (simp add: generateIrnRoute_def finished_simps gen_try_def start_def)
next
  case (Throw e)
  then show ?thesis
    by (simp add: generateIrnRoute_def finished_simps gen_try_def start_def)
qed

lemma cancel_access_token_cached:
  "getAccessToken (st_cache st) (c_now_getAccessToken w) \<noteq> JNull \<Longrightarrow>
     cancel_access_token w st
       = (Continue (getAccessToken (st_cache st) (c_now_getAccessToken w)), st)"
  by (simp add: cancel_access_token_def truthy_getAccessToken Let_def)

lemma cancel_auth_data_cached:
  "getAuthData (st_cache st) (c_now_getAuthData w) \<noteq> JNull \<Longrightarrow>
     cancel_auth_data w b st = (Continue (getAuthData (st_cache st) (c_now_getAuthData w)), st)"
  by (simp add: cancel_auth_data_def truthy_getAuthData Let_def)

lemma cancel_irn_call_state:
  "st_cache (snd (cancel_irn_call w b a st)) = st_cache st
   \<and> st_calls (snd (cancel_irn_call w b a st)) =
       st_calls st @ [CancelIrn b a
         (JObj [(''Irn'', body_get (c_body w) ''irn''),
                (''CnlRsn'', body_get (c_body w) ''cancel_reason_code''),
                (''CnlRem'', js_or (body_get (c_body w) ''cancel_reason'') (JStr []))])]"
  by (simp add: cancel_irn_call_def Let_def issue_def db_issue_def split: sum.splits)

lemma cancel_with_valid_credentials:
  assumes "credentials_valid c (CancelRequest w)"
  shows "res_calls (cancelIrnRoute w c) = target_calls h (CancelRequest w) c
         \<and> res_cache (cancelIrnRoute w c) = c"
proof (cases "cancel_preamble w")
  case None
  with assms show ?thesis
    by (simp add: cancelIrnRoute_def finished_simps cancel_try_def cancel_access_token_cached
          cancel_auth_data_cached cancel_irn_call_state start_def)
next
  case (Some r)
  then show ?thesis
    by (simp add: cancelIrnRoute_def finished_simps cancel_try_def start_def)
qed

lemma target_calls_no_auth: "filter is_auth_call (target_calls h rq c) = []"
  by (cases rq) (auto split: step.splits option.splits)

lemma invoke_with_valid_credentials:
  assumes "credentials_valid c rq"
  shows "res_calls (invoke h rq c) = target_calls h rq c \<and> res_cache (invoke h rq c) = c"
proof (cases rq)
  case (GenerateRequest w)
  with assms show ?thesis using generate_with_valid_credentials [of c w h] by simp
next
  case (CancelRequest w)
  with assms show ?thesis using cancel_with_valid_credentials [of c w h] by simp
qed

subsection \<open>A rejected authenticate call\<close>

lemma error_reply_simps [simp]:
  "reply_status (error_reply n m) = n"
  "js_get (reply_body (error_reply n m)) ''error'' = m"
  by (simp_all add: error_reply_def js_get_def)

lemma api_error_reply_simps [simp]:
  "reply_status (api_error_reply title m r ts) = 400"
  "js_get (reply_body (api_error_reply title m r ts)) ''error'' = JStr title"
  by (simp_all add: api_error_reply_def js_get_def)

lemma gen_catch_simps [simp]:
  "reply_status (gen_catch h e) = 500"
  "truthy (js_get (reply_body (gen_catch h e)) ''error'')"
  by (simp_all add: gen_catch_def js_or_def)

lemma gen_access_token_rejected:
  assumes "getAccessToken (st_cache st) (g_now_getAccessToken w) = JNull"
      and "g_authenticate w = Inr r" and "resp_json r = Inr d"
      and "js_get d ''status'' \<noteq> JNum 1"
  shows "snd (gen_access_token h w st) = issue Authenticate st
         \<and> (case fst (gen_access_token h w st) of
               Continue x \<Rightarrow> False
             | Return rep \<Rightarrow>
                 reply_status rep = 400 \<and> truthy (js_get (reply_body rep) ''error'')
                 \<and> (resp_ok r \<and> \<not> nullish d \<longrightarrow>
                      rep = authentication_error_reply d (g_timestamp w))
             | Throw e \<Rightarrow> \<not> (resp_ok r \<and> \<not> nullish d))"
  using assms
  by (simp add: gen_access_token_def Let_def js_get_def [of "JObj kvs" for kvs]
        authentication_error_reply_def split: sum.splits)

lemma gen_section_calls_cached:
  assumes "getAccessToken (st_cache st) (g_now_getAccessToken w) \<noteq> JNull"
  shows "Authenticate \<notin> set (st_calls (snd (gen_irn_section h w d st))) - set (st_calls st)"
proof (cases "body_get (g_body w) ''invoice_type'' = JStr ''NON BILLING''")
  case True
  then show ?thesis by (simp add: gen_irn_section_def)
next
  case False
  let ?b = "getAccessToken (st_cache st) (g_now_getAccessToken w)"
  obtain out st2 where a: "gen_auth_data h w ?b st = (out, st2)"
    by (cases "gen_auth_data h w ?b st")
  have calls: "st_calls st2 = st_calls st
               \<or> (\<exists>f. st_calls st2 = st_calls st @ [EnhancedAuth ?b f])"
    using gen_auth_data_state [of h w ?b st] a by simp
  show ?thesis
  proof (cases out)
    case (Continue x)
    with False assms a calls show ?thesis
      by (auto simp add: gen_irn_section_def and_then_def gen_access_token_cached
            gen_irn_call_state issue_def)
  next
    case (Return x)
    with False assms a calls show ?thesis
      by (auto simp add: gen_irn_section_def and_then_def gen_access_token_cached)
  next
    case (Throw x)
    with False assms a calls show ?thesis
      by (auto simp add: gen_irn_section_def and_then_def gen_access_token_cached)
  qed
qed

lemma authenticate_issued:
  assumes "Authenticate \<in> set (res_calls (generateIrnRoute h w c))"
  shows "(\<exists>x. gen_preamble h w = Continue x)
         \<and> body_get (g_body w) ''invoice_type'' \<noteq> JStr ''NON BILLING''
         \<and> getAccessToken c (g_now_getAccessToken w) = JNull"
proof (cases "gen_preamble h w")
  case (Continue x)
  obtain u cu n d where x: "x = (u, cu, n, d)" by (cases x) auto
  have calls:
    "res_calls (generateIrnRoute h w c) = st_calls (snd (gen_irn_section h w d (start c)))"
    using gen_try_after_section [of h w u cu n d "start c"] Continue x
    by (simp add: generateIrnRoute_def finished_simps)
  have nb: "body_get (g_body w) ''invoice_type'' \<noteq> JStr ''NON BILLING''"
  proof
    assume "body_get (g_body w) ''invoice_type'' = JStr ''NON BILLING''"
    with calls assms show False by (simp add: gen_irn_section_def start_def)
  qed
  have "getAccessToken c (g_now_getAccessToken w) = JNull"
  proof (rule ccontr)
    assume "getAccessToken c (g_now_getAccessToken w) \<noteq> JNull"
    then show False
      using gen_section_calls_cached [of "start c" w h d] calls assms by (simp add: start_def)
  qed
  with Continue nb show ?thesis by blast
next
  case (Return r)
  with assms show ?thesis
    by (simp add: generateIrnRoute_def finished_simps gen_try_def start_def)
next
  case (Throw e)
  with assms show ?thesis
    by (simp add: generateIrnRoute_def finished_simps gen_try_def start_def)
qed

lemma generate_authenticate_rejected:
  assumes "gen_preamble h w = Continue x"
      and "body_get (g_body w) ''invoice_type'' \<noteq> JStr ''NON BILLING''"
      and "getAccessToken c (g_now_getAccessToken w) = JNull"
      and "g_authenticate w = Inr r" and "resp_json r = Inr d"
      and "js_get d ''status'' \<noteq> JNum 1"
  shows "res_calls (generateIrnRoute h w c) = [Authenticate]
         \<and> res_cache (generateIrnRoute h w c) = c
         \<and> res_writes (generateIrnRoute h w c) = []
         \<and> (reply_status (res_reply (generateIrnRoute h w c)) = 400
            \<or> reply_status (res_reply (generateIrnRoute h w c)) = 500)
         \<and> truthy (js_get (reply_body (res_reply (generateIrnRoute h w c))) ''error'')
         \<and> (resp_ok r \<and> \<not> nullish d \<longrightarrow>
              res_reply (generateIrnRoute h w c)
                = authentication_error_reply d (g_timestamp w))"
proof -
  obtain u cu n iv where x: "x = (u, cu, n, iv)" by (cases x) auto
  obtain out st1 where g: "gen_access_token h w (start c) = (out, st1)"
    by (cases "gen_access_token h w (start c)")
  have st1: "st1 = issue Authenticate (start c)"
   and out: "case out of
               Continue x \<Rightarrow> False
             | Return rep \<Rightarrow>
                 reply_status rep = 400 \<and> truthy (js_get (reply_body rep) ''error'')
                 \<and> (resp_ok r \<and> \<not> nullish d \<longrightarrow>
                      rep = authentication_error_reply d (g_timestamp w))
             | Throw e \<Rightarrow> \<not> (resp_ok r \<and> \<not> nullish d)"
    using gen_access_token_rejected [of "start c" w r d h] assms g by (simp_all add: start_def)
  show ?thesis
  proof (cases out)
    case (Continue y)
    with out show ?thesis by simp
  next
    case (Return rep)
    with out assms x g st1 show ?thesis
      by (simp add: generateIrnRoute_def finished_def gen_try_def gen_irn_section_def
            and_then_def start_def issue_def)
  next
    case (Throw e)
    with out assms x g st1 show ?thesis
      by (auto simp add: generateIrnRoute_def finished_def gen_try_def gen_irn_section_def
            and_then_def start_def issue_def)
  qed
qed

text \<open>
  C3. In every invocation of the generate-IRN handler that issues the authenticate call and
  gets a response whose status field is not 1, the handler returns an error (status 400, or
  500 from its catch block when the body is \<^verbatim>\<open>null\<close> or cannot be read), with an \<^verbatim>\<open>error\<close>
  field; authenticate is the only remote call issued, so enhanced authentication and
  generate-IRN are never called; nothing is written; and the cache is left as it was. When
  the response is \<^verbatim>\<open>ok\<close> and its body is an object, the error is the structured
  authentication error with the upstream status and error code.
\<close>

theorem authenticate_failure_is_terminal:
  assumes "g_authenticate w = Inr authResponse"
      and "resp_json authResponse = Inr authApiData"
      and "js_get authApiData ''status'' \<noteq> JNum 1"
      and "Authenticate \<in> set (res_calls (generateIrnRoute h w c))"
  shows "res_calls (generateIrnRoute h w c) = [Authenticate]
         \<and> res_cache (generateIrnRoute h w c) = c
         \<and> res_writes (generateIrnRoute h w c) = []
         \<and> (reply_status (res_reply (generateIrnRoute h w c)) = 400
            \<or> reply_status (res_reply (generateIrnRoute h w c)) = 500)
         \<and> truthy (js_get (reply_body (res_reply (generateIrnRoute h w c))) ''error'')
         \<and> (resp_ok authResponse \<and> \<not> nullish authApiData \<longrightarrow>
              res_reply (generateIrnRoute h w c)
                = authentication_error_reply authApiData (g_timestamp w))"
proof -
  from authenticate_issued [OF assms(4)]
  obtain x where "gen_preamble h w = Continue x"
    and "body_get (g_body w) ''invoice_type'' \<noteq> JStr ''NON BILLING''"
    and "getAccessToken c (g_now_getAccessToken w) = JNull"
    by blast
  then show ?thesis
    using generate_authenticate_rejected [of h w x c authResponse authApiData] assms(1-3)
    by simp
qed

text \<open>
  Scenario B: the cache is empty and authenticate answers \<^verbatim>\<open>{status: 0}\<close>. The handler
  answers 400, has called authenticate only, and the cache is still empty.
\<close>

theorem authenticate_failure_is_terminal_witness:
  "g_authenticate scenario_B = Inr (json_response (JObj [(''status'', JNum 0)]))
   \<and> resp_json (json_response (JObj [(''status'', JNum 0)])) = Inr (JObj [(''status'', JNum 0)])
   \<and> js_get (JObj [(''status'', JNum 0)]) ''status'' \<noteq> JNum 1
   \<and> Authenticate \<in> set (res_calls (generateIrnRoute demo_host scenario_B initial_cache))
   \<and> res_calls (generateIrnRoute demo_host scenario_B initial_cache) = [Authenticate]
   \<and> res_cache (generateIrnRoute demo_host scenario_B initial_cache) = initial_cache
   \<and> res_writes (generateIrnRoute demo_host scenario_B initial_cache) = []
   \<and> res_reply (generateIrnRoute demo_host scenario_B initial_cache)
       = authentication_error_reply (JObj [(''status'', JNum 0)]) ''2024-01-01T00:00:00.000Z''"
  using authenticate_failure_is_terminal
          [where w = scenario_B and h = demo_host and c = initial_cache
             and authResponse = "json_response (JObj [(''status'', JNum 0)])"
             and authApiData = "JObj [(''status'', JNum 0)]"]
  by (simp add: scenario_B_def world_defs gen_defs cache_defs)

subsection \<open>Valid cached credentials\<close>

text \<open>
  C6. If both cached credentials are valid at the reads of two consecutive invocations (of
  either route, the second running on the cache the first left), then neither invocation
  issues an authenticate or an enhanced-authentication call: each issues exactly its target
  operation call with the cached credentials (or no call at all when it ends before the IRN
  steps), and the cache stays as it was.
\<close>

theorem cached_credentials_skip_authentication:
  assumes "credentials_valid c first" and "credentials_valid c second"
  shows "res_calls (invoke h first c) = target_calls h first c
         \<and> res_cache (invoke h first c) = c
         \<and> res_calls (invoke h second (res_cache (invoke h first c))) = target_calls h second c
         \<and> res_cache (invoke h second (res_cache (invoke h first c))) = c
         \<and> filter is_auth_call
             (res_calls (invoke h first c)
              @ res_calls (invoke h second (res_cache (invoke h first c)))) = []"
  using assms invoke_with_valid_credentials [of c first h]
    invoke_with_valid_credentials [of c second h]
  by (simp add: target_calls_no_auth)

text \<open>
  A generate request and then a cancel request on a cache that holds both credentials: the
  only calls are generate-IRN and cancel-IRN, with the cached token and session.
\<close>

theorem cached_credentials_skip_authentication_witness:
  "credentials_valid warm_cache (GenerateRequest scenario_A)
   \<and> credentials_valid warm_cache (CancelRequest scenario_D)
   \<and> res_calls (invoke demo_host (GenerateRequest scenario_A) warm_cache)
       = [GenerateIrn (JStr ''tok1'') (session (JStr ''at1'') (JStr ''s1'') (JStr ''u1''))
            (JObj [(''Version'', JStr ''1.1'')])]
   \<and> res_calls (invoke demo_host (CancelRequest scenario_D)
                   (res_cache (invoke demo_host (GenerateRequest scenario_A) warm_cache)))
       = [CancelIrn (JStr ''tok1'') (session (JStr ''at1'') (JStr ''s1'') (JStr ''u1''))
            (JObj [(''Irn'', JStr ''IRN123''), (''CnlRsn'', JStr ''1''),
                   (''CnlRem'', JStr ''Duplicate'')])]
   \<and> res_cache (invoke demo_host (CancelRequest scenario_D)
                   (res_cache (invoke demo_host (GenerateRequest scenario_A) warm_cache)))
       = warm_cache"
  using cached_credentials_skip_authentication
          [where c = warm_cache and first = "GenerateRequest scenario_A"
             and second = "CancelRequest scenario_D" and h = demo_host]
  by (simp add: scenario_D_def world_defs gen_defs cancel_defs cache_defs session_def)

subsection \<open>The normalisation of a failed generate-IRN response\<close>


























subsection \<open>A write that fails after the IRN operation succeeded\<close>

text \<open>
  C5, on the code. With valid cached credentials, generate-IRN answers with \<^verbatim>\<open>Irn\<close>
  "IRN123" and the insert of the invoice fails: the handler answers 500 with the persistence
  error only. Likewise cancel-IRN answers with \<^verbatim>\<open>Irn\<close> "IRN123" and the insert into
  \<^verbatim>\<open>canceled_invoices\<close> fails: the handler answers 500 with the persistence error only.
  Neither response carries the IRN data.
\<close>

theorem persistence_failure_reply_has_no_irn:
  "res_calls (generateIrnRoute demo_host insert_fails warm_cache)
     = [GenerateIrn (JStr ''tok1'') (session (JStr ''at1'') (JStr ''s1'') (JStr ''u1''))
          (JObj [(''Version'', JStr ''1.1'')])]
   \<and> res_reply (generateIrnRoute demo_host insert_fails warm_cache)
       = \<lparr>reply_status = 500,
          reply_body = JObj [(''error'', JStr ''Invoice creation failed''),
                             (''details'', JStr ''insert failed'')]\<rparr>
   \<and> res_calls (cancelIrnRoute scenario_D warm_cache)
       = [CancelIrn (JStr ''tok1'') (session (JStr ''at1'') (JStr ''s1'') (JStr ''u1''))
            (JObj [(''Irn'', JStr ''IRN123''), (''CnlRsn'', JStr ''1''),
                   (''CnlRem'', JStr ''Duplicate'')])]
   \<and> res_reply (cancelIrnRoute scenario_D warm_cache)
       = \<lparr>reply_status = 500,
          reply_body = JObj [(''status'', JNum 0),
                             (''errorMessage'', JStr ''Failed to record cancellation''),
                             (''details'', JObj [(''message'', JStr ''insert failed'')])]\<rparr>"
proof -
  have "generateIrnRoute demo_host insert_fails warm_cache =
     \<lparr>res_reply =
        \<lparr>reply_status = 500,
         reply_body = JObj [(''error'', JStr ''Invoice creation failed''),
                            (''details'', JStr ''insert failed'')]\<rparr>,
      res_cache = warm_cache,
      res_calls = [GenerateIrn (JStr ''tok1'') (session (JStr ''at1'') (JStr ''s1'') (JStr ''u1''))
                     (JObj [(''Version'', JStr ''1.1'')])],
      res_writes = [InsertInvoice
         [(''unit_id'', JNum 15), (''customer_id'', JNum 7), (''invoice_type'', JStr ''BILLING''),
          (''grade'', JStr ''M20''), (''invoice_no'', JStr ''U-15/0009/2025-26''),
          (''discount'', JNum 0), (''gst_percentage'', JNum 18),
          (''invoice_data'', JObj [(''Version'', JStr ''1.1'')]),
          (''irn'', JStr ''IRN123''), (''qrcode'', JStr ''qr''), (''ack_no'', JStr ''A1''),
          (''ack_dt'', JNull), (''signed_invoice'', JUndefined),
          (''einvoice_status'', JStr ''GENERATED'')]]\<rparr>"
    by (simp add: insert_fails_def world_defs gen_defs cache_defs session_def)
  moreover have "cancelIrnRoute scenario_D warm_cache =
     \<lparr>res_reply =
        \<lparr>reply_status = 500,
         reply_body = JObj [(''status'', JNum 0),
                            (''errorMessage'', JStr ''Failed to record cancellation''),
                            (''details'', JObj [(''message'', JStr ''insert failed'')])]\<rparr>,
      res_cache = warm_cache,
      res_calls = [CancelIrn (JStr ''tok1'') (session (JStr ''at1'') (JStr ''s1'') (JStr ''u1''))
                     (JObj [(''Irn'', JStr ''IRN123''), (''CnlRsn'', JStr ''1''),
                            (''CnlRem'', JStr ''Duplicate'')])],
      res_writes = [InsertCanceledInvoice (JStr ''U-15/0009/2025-26'') (JStr ''IRN123'')
                      (JStr ''1'') (JStr ''Duplicate'')]\<rparr>"
    by (simp add: scenario_D_def world_defs cancel_defs cache_defs session_def)
  ultimately show ?thesis by simp
qed

subsection \<open>NON BILLING invoices\<close>

lemma non_billing_row_keys:
  "list_all (\<lambda>k. map_of (invoiceInsertData h w u n d JNull) k = map_of (g_body w) k)
     irn_field_names"
  by (simp add: invoiceInsertData_def obj_assign_def irn_field_names_def update_conv'
        delete_conv')

lemma non_billing_row:
  "invoiceInsertData h w u n d JNull =
     obj_assign (AList.delete ''delivery_address_id'' (g_body w))
       [(''unit_id'', u), (''invoice_no'', n),
        (''discount'', js_Number h (js_or (body_get (g_body w) ''discount'') (JNum 0))),
        (''gst_percentage'',
           js_Number h (js_or (body_get (g_body w) ''gst_percentage'') (JNum 18))),
        (''invoice_data'', d)]"
  by (simp add: invoiceInsertData_def)

lemma gen_preamble_status:
  "gen_preamble h w = Return r \<Longrightarrow> reply_status r \<noteq> 200"
  by (auto simp add: gen_preamble_def Let_def error_reply_def split: if_splits sum.splits)

lemma generate_non_billing:
  assumes "body_get (g_body w) ''invoice_type'' = JStr ''NON BILLING''"
  shows "res_calls (generateIrnRoute h w c) = []
         \<and> res_cache (generateIrnRoute h w c) = c
         \<and> (case gen_preamble h w of
               Continue (unitId, customerId, invoice_no, invoiceData) \<Rightarrow>
                 res_writes (generateIrnRoute h w c)
                   = non_billing_writes h w unitId customerId invoice_no invoiceData
                 \<and> (\<not> truthy (db_error (g_insert w)) \<longrightarrow>
                      res_reply (generateIrnRoute h w c)
                        = \<lparr>reply_status = 200,
                           reply_body = JObj [(''invoice'', db_data (g_insert w))]\<rparr>)
             | Return r \<Rightarrow> res_writes (generateIrnRoute h w c) = []
             | Throw e \<Rightarrow> res_writes (generateIrnRoute h w c) = [])
         \<and> (reply_status (res_reply (generateIrnRoute h w c)) = 200 \<longrightarrow>
              reply_body (res_reply (generateIrnRoute h w c))
                = JObj [(''invoice'', db_data (g_insert w))])"
proof (cases "gen_preamble h w")
  case (Continue x)
  obtain u cu n d where x: "x = (u, cu, n, d)" by (cases x) auto
  with Continue assms show ?thesis
    by (simp add: generateIrnRoute_def finished_def gen_try_def gen_irn_section_def start_def
          gen_persist_def Let_def db_issue_def non_billing_writes_def)
next
  case (Return r)
  with assms gen_preamble_status [of h w r] show ?thesis
    by (simp add: generateIrnRoute_def finished_def gen_try_def start_def)
next
  case (Throw e)
  with assms show ?thesis
    by (simp add: generateIrnRoute_def finished_def gen_try_def start_def)
qed

text \<open>
  C10 (amended). For every generate-IRN request whose body has \<^verbatim>\<open>invoice_type\<close> equal to
  "NON BILLING", the handler performs none of the three remote calls and leaves the cache as
  it was. When the checks before the IRN steps pass, it inserts one invoice row, to which it
  adds no IRN field: the row is the request body without \<^verbatim>\<open>delivery_address_id\<close>, overlaid
  with \<^verbatim>\<open>unit_id\<close>, \<^verbatim>\<open>invoice_no\<close>, \<^verbatim>\<open>discount\<close>, \<^verbatim>\<open>gst_percentage\<close> and \<^verbatim>\<open>invoice_data\<close>, so each
  of \<^verbatim>\<open>irn\<close>, \<^verbatim>\<open>qrcode\<close>, \<^verbatim>\<open>ack_no\<close>, \<^verbatim>\<open>ack_dt\<close>, \<^verbatim>\<open>signed_invoice\<close>, \<^verbatim>\<open>einvoice_status\<close> is in the
  row exactly as the request body carries it, and is omitted when the body omits it. When
  the insert succeeds the response is the success response, and every success response is
  \<^verbatim>\<open>{invoice: <the row the insert returned>}\<close>, without the \<^verbatim>\<open>irn\<close> object.
\<close>

theorem non_billing_skips_irn:
  assumes "body_get (g_body w) ''invoice_type'' = JStr ''NON BILLING''"
  shows "res_calls (generateIrnRoute h w c) = []
         \<and> res_cache (generateIrnRoute h w c) = c
         \<and> (case gen_preamble h w of
               Continue (unitId, customerId, invoice_no, invoiceData) \<Rightarrow>
                 res_writes (generateIrnRoute h w c)
                   = non_billing_writes h w unitId customerId invoice_no invoiceData
                 \<and> invoiceInsertData h w unitId invoice_no invoiceData JNull
                     = obj_assign (AList.delete ''delivery_address_id'' (g_body w))
                         [(''unit_id'', unitId), (''invoice_no'', invoice_no),
                          (''discount'',
                             js_Number h (js_or (body_get (g_body w) ''discount'') (JNum 0))),
                          (''gst_percentage'',
                             js_Number h
                               (js_or (body_get (g_body w) ''gst_percentage'') (JNum 18))),
                          (''invoice_data'', invoiceData)]
                 \<and> list_all
                      (\<lambda>k. map_of (invoiceInsertData h w unitId invoice_no invoiceData JNull) k
                             = map_of (g_body w) k)
                      irn_field_names
                 \<and> (\<not> truthy (db_error (g_insert w)) \<longrightarrow>
                      res_reply (generateIrnRoute h w c)
                        = \<lparr>reply_status = 200,
                           reply_body = JObj [(''invoice'', db_data (g_insert w))]\<rparr>)
             | Return r \<Rightarrow> res_writes (generateIrnRoute h w c) = []
             | Throw e \<Rightarrow> res_writes (generateIrnRoute h w c) = [])
         \<and> (reply_status (res_reply (generateIrnRoute h w c)) = 200 \<longrightarrow>
              reply_body (res_reply (generateIrnRoute h w c))
                = JObj [(''invoice'', db_data (g_insert w))])"
proof (cases "gen_preamble h w")
  case (Continue x)
  obtain u cu n d where x: "x = (u, cu, n, d)" by (cases x) auto
  have "invoiceInsertData h w u n d JNull =
          obj_assign (AList.delete ''delivery_address_id'' (g_body w))
            [(''unit_id'', u), (''invoice_no'', n),
             (''discount'', js_Number h (js_or (body_get (g_body w) ''discount'') (JNum 0))),
             (''gst_percentage'',
                js_Number h (js_or (body_get (g_body w) ''gst_percentage'') (JNum 18))),
             (''invoice_data'', d)]"
    by (rule non_billing_row)
  moreover
  have "list_all (\<lambda>k. map_of (invoiceInsertData h w u n d JNull) k = map_of (g_body w) k)
          irn_field_names"
    by (rule non_billing_row_keys)
  ultimately show ?thesis
    using generate_non_billing [OF assms, of h c] Continue x by simp
next
  case (Return r)
  then show ?thesis using generate_non_billing [OF assms, of h c] by simp
next
  case (Throw e)
  then show ?thesis using generate_non_billing [OF assms, of h c] by simp
qed

text \<open>
  A NON BILLING request whose body has none of the IRN fields: no remote call, one row
  without IRN fields, and the success response without the \<^verbatim>\<open>irn\<close> object.
\<close>

theorem non_billing_skips_irn_witness:
  "body_get (g_body non_billing_plain) ''invoice_type'' = JStr ''NON BILLING''
   \<and> res_calls (generateIrnRoute demo_host non_billing_plain initial_cache) = []
   \<and> res_writes (generateIrnRoute demo_host non_billing_plain initial_cache)
       = [InsertInvoice
            [(''unit_id'', JNum 15), (''customer_id'', JNum 7),
             (''invoice_type'', JStr ''NON BILLING''),
             (''invoice_no'', JStr ''U-15/0009/2025-26''), (''discount'', JNum 0),
             (''gst_percentage'', JNum 18),
             (''invoice_data'', JObj [(''Version'', JStr ''1.1'')])]]
   \<and> res_reply (generateIrnRoute demo_host non_billing_plain initial_cache)
       = \<lparr>reply_status = 200, reply_body = JObj [(''invoice'', JObj [(''id'', JNum 2)])]\<rparr>"
  using non_billing_skips_irn
          [where w = non_billing_plain and h = demo_host and c = initial_cache]
  by (simp add: non_billing_plain_def world_defs gen_defs cache_defs non_billing_writes_def)

text \<open>
  C10 as stated fails when the request body itself carries an IRN field: the body is spread
  into the row, so the row of this NON BILLING request has an \<^verbatim>\<open>irn\<close>.
\<close>

theorem non_billing_body_irn_counterexample:
  "body_get (g_body non_billing_with_irn) ''invoice_type'' = JStr ''NON BILLING''
   \<and> res_writes (generateIrnRoute demo_host non_billing_with_irn initial_cache)
       = [InsertInvoice
            [(''unit_id'', JNum 15), (''customer_id'', JNum 7),
             (''invoice_type'', JStr ''NON BILLING''), (''irn'', JStr ''IRN-FROM-BODY''),
             (''invoice_no'', JStr ''U-15/0009/2025-26''), (''discount'', JNum 0),
             (''gst_percentage'', JNum 18),
             (''invoice_data'', JObj [(''Version'', JStr ''1.1'')])]]
   \<and> map_of
        [(''unit_id'', JNum 15), (''customer_id'', JNum 7),
         (''invoice_type'', JStr ''NON BILLING''), (''irn'', JStr ''IRN-FROM-BODY''),
         (''invoice_no'', JStr ''U-15/0009/2025-26''), (''discount'', JNum 0),
         (''gst_percentage'', JNum 18),
         (''invoice_data'', JObj [(''Version'', JStr ''1.1'')])] ''irn''
       = Some (JStr ''IRN-FROM-BODY'')"
  by (simp add: non_billing_with_irn_def world_defs gen_defs cache_defs)


end
